theory Spec2Isabelle
  imports Complex_Main "HOL-Library.Word"
begin

text \<open>
  A model of \<open>src/api/videos.ts\<close>: the handler of video uploads with the prober
  \<open>getVideoAspectRatio\<close> and the remuxer \<open>processVideoForFastStart\<close>, and the handler of
  thumbnail uploads. A handler is a function from the state it starts in (the local files,
  the table of videos, the calls made so far) to its result, a response or the error
  thrown, and the state it leaves. What the handlers import and what they call in the
  runtime is a parameter of the model.
\<close>

section \<open>JavaScript numbers\<close>

text \<open>
  A JavaScript number is an IEEE 754 binary64 value. The finite ones are modelled by the
  rational they denote, the three special values by constructors of their own. The two
  zeros are identified: \<open>videos.ts\<close> only divides, subtracts, takes \<open>Math.abs\<close> and
  compares with \<open><\<close>, and none of the results it looks at depends on the sign of a zero.
  Every arithmetic result is rounded to the nearest binary64 value, ties to even, by
  \<open>to_double\<close>: 53 significant bits, exponents from \<open>-1022\<close> (below it the spacing of
  the subnormal numbers, \<open>2^-1074\<close>, stays fixed) to \<open>1023\<close> (above it the result is
  an infinity).
\<close>

datatype jsnum = NaN | PosInf | NegInf | Fin rat

function ilog2 :: "int \<Rightarrow> int" where
  "ilog2 n = (if n < 2 then 0 else 1 + ilog2 (n div 2))"
  by pat_completeness auto
termination
  by (relation "measure nat") auto

declare ilog2.simps [simp del]

definition pow2 :: "int \<Rightarrow> rat" where
  "pow2 k = (if 0 \<le> k then 2 ^ nat k else 1 / 2 ^ nat (- k))"

definition adjust_exp :: "rat \<Rightarrow> int \<Rightarrow> int" where
  "adjust_exp a k = (if pow2 k \<le> a then k else k - 1)"

text \<open>The binary exponent of a positive rational \<open>a\<close>: the \<open>e\<close> with \<open>2^e \<le> a < 2^(e+1)\<close>.\<close>

definition binexp :: "rat \<Rightarrow> int" where
  "binexp a = adjust_exp a (ilog2 (fst (quotient_of a)) - ilog2 (snd (quotient_of a)))"

definition tie_even :: "int \<Rightarrow> rat \<Rightarrow> int" where
  "tie_even f r = (if r < 1 / 2 then f else if 1 / 2 < r then f + 1
     else if even f then f else f + 1)"

definition round_half_even :: "rat \<Rightarrow> int" where
  "round_half_even q = tie_even \<lfloor>q\<rfloor> (q - of_int \<lfloor>q\<rfloor>)"

definition round_ulp :: "rat \<Rightarrow> rat \<Rightarrow> rat" where
  "round_ulp u a = of_int (round_half_even (a / u)) * u"

definition overflow :: "bool \<Rightarrow> rat \<Rightarrow> jsnum" where
  "overflow neg y = (if 1024 \<le> binexp y then (if neg then NegInf else PosInf)
     else Fin (if neg then - y else y))"

definition to_double :: "rat \<Rightarrow> jsnum" where
  "to_double x = (if x = 0 then Fin 0 else
     overflow (x < 0) (round_ulp (pow2 (max (binexp \<bar>x\<bar>) (- 1022) - 52)) \<bar>x\<bar>))"

text \<open>The operator \<open>/\<close> on numbers.\<close>

fun js_div :: "jsnum \<Rightarrow> jsnum \<Rightarrow> jsnum" where
  "js_div NaN _ = NaN"
| "js_div _ NaN = NaN"
| "js_div (Fin a) (Fin b) =
     (if b = 0 then (if a = 0 then NaN else if a < 0 then NegInf else PosInf)
      else to_double (a / b))"
| "js_div (Fin a) _ = Fin 0"
| "js_div PosInf (Fin b) = (if b < 0 then NegInf else PosInf)"
| "js_div NegInf (Fin b) = (if b < 0 then PosInf else NegInf)"
| "js_div _ _ = NaN"

text \<open>The operator \<open>-\<close> on numbers.\<close>

fun js_sub :: "jsnum \<Rightarrow> jsnum \<Rightarrow> jsnum" where
  "js_sub NaN _ = NaN"
| "js_sub _ NaN = NaN"
| "js_sub (Fin a) (Fin b) = to_double (a - b)"
| "js_sub (Fin a) PosInf = NegInf"
| "js_sub (Fin a) NegInf = PosInf"
| "js_sub PosInf PosInf = NaN"
| "js_sub NegInf NegInf = NaN"
| "js_sub PosInf _ = PosInf"
| "js_sub NegInf _ = NegInf"

fun Math_abs :: "jsnum \<Rightarrow> jsnum" where
  "Math_abs NaN = NaN"
| "Math_abs (Fin a) = Fin \<bar>a\<bar>"
| "Math_abs _ = PosInf"

text \<open>The operator \<open><\<close> on numbers: false as soon as one side is \<open>NaN\<close>.\<close>

fun js_lt :: "jsnum \<Rightarrow> jsnum \<Rightarrow> bool" where
  "js_lt NaN _ = False"
| "js_lt _ NaN = False"
| "js_lt (Fin a) (Fin b) = (a < b)"
| "js_lt PosInf _ = False"
| "js_lt _ PosInf = True"
| "js_lt NegInf NegInf = False"
| "js_lt NegInf _ = True"
| "js_lt _ _ = False"


section \<open>JavaScript values read from JSON\<close>

text \<open>
  What \<open>JSON.parse\<close> returns, and \<open>undefined\<close>, which a property access adds. An object
  is the list of its own properties.
\<close>

datatype jsval =
    JUndefined
  | JNull
  | JBool bool
  | JNum jsnum
  | JStr string
  | JArr "jsval list"
  | JObj "(string \<times> jsval) list"

datatype error =
    BadRequestError string
  | NotFoundError string
  | UserForbiddenError string
  | Error string
  | FfprobeFailed int string
  | FfmpegFailed int string
  | SyntaxError
  | TypeError
  | Unauthorized string
  | StorageFailure string

text \<open>
  \<open>FfprobeFailed n err\<close> is the \<open>Error\<close> with the message
  \<open>ffprobe failed with exit code n: err\<close>, and \<open>FfmpegFailed\<close> the one of ffmpeg.
  \<open>SyntaxError\<close> and \<open>TypeError\<close> are the exceptions of the language itself.
  \<open>Unauthorized\<close> and \<open>StorageFailure\<close> are not thrown by \<open>videos.ts\<close>: they name what the
  credential validator and the object store throw, whose code is imported.
\<close>

text \<open>
  \<open>v.name\<close>, for a name that no prototype defines (\<open>streams\<close>, \<open>width\<close>, \<open>height\<close>):
  a \<open>TypeError\<close> on \<open>null\<close> and \<open>undefined\<close>, the own property of an object,
  \<open>undefined\<close> on everything else.
\<close>

fun member :: "jsval \<Rightarrow> string \<Rightarrow> error + jsval" where
  "member JUndefined name = Inl TypeError"
| "member JNull name = Inl TypeError"
| "member (JObj props) name =
     Inr (case map_of props name of None \<Rightarrow> JUndefined | Some v \<Rightarrow> v)"
| "member _ name = Inr JUndefined"

text \<open>\<open>v?.name\<close>: \<open>undefined\<close> where \<open>v.name\<close> would throw.\<close>

definition opt_member :: "jsval \<Rightarrow> string \<Rightarrow> jsval" where
  "opt_member v name = (case member v name of Inl _ \<Rightarrow> JUndefined | Inr x \<Rightarrow> x)"

text \<open>\<open>v?.[0]\<close>: the first element of an array, the first character of a string, the
  property \<open>0\<close> of an object.\<close>

fun opt_index0 :: "jsval \<Rightarrow> jsval" where
  "opt_index0 (JArr (x # _)) = x"
| "opt_index0 (JStr (c # _)) = JStr [c]"
| "opt_index0 (JObj props) = (case map_of props ''0'' of None \<Rightarrow> JUndefined | Some v \<Rightarrow> v)"
| "opt_index0 _ = JUndefined"

text \<open>The values that \<open>!v\<close> lets through: everything but \<open>undefined\<close>, \<open>null\<close>,
  \<open>false\<close>, zero, \<open>NaN\<close> and the empty string.\<close>

fun truthy :: "jsval \<Rightarrow> bool" where
  "truthy JUndefined = False"
| "truthy JNull = False"
| "truthy (JBool b) = b"
| "truthy (JNum n) = (n \<noteq> NaN \<and> n \<noteq> Fin 0)"
| "truthy (JStr s) = (s \<noteq> [])"
| "truthy (JArr _) = True"
| "truthy (JObj _) = True"

section \<open>Configuration, records, requests\<close>

type_synonym path = string

datatype blob = Blob nat

record ApiConfig =
  jwtSecret :: string
  s3Bucket :: string
  s3Region :: string
  assetsRoot :: string
  port :: string

record Video =
  video_id :: string
  userID :: string
  videoURL :: "string option"
  thumbnailURL :: "string option"

text \<open>An uploaded file: the byte count and the media type the runtime reports for it, and
  its content, kept opaque.\<close>

record File =
  file_size :: nat
  file_type :: string
  file_data :: blob

datatype form_value = FormFile File | FormString string

text \<open>\<open>formData\<close> is what \<open>await req.formData()\<close> gives: the fields of the body, or the
  error of a body that does not parse.\<close>

record Request =
  videoId :: "string option"
  headers :: "(string \<times> string) list"
  formData :: "error + (string \<times> form_value) list"

datatype response = Response nat "Video option"

record proc_result =
  exited :: int
  stdout :: string
  stderr :: string

section \<open>Effects\<close>

text \<open>
  The state a handler works on: the local file system, the table of videos, and the
  sequence of calls made so far to the collaborators and to the runtime, in order.
\<close>

datatype event =
    GetBearerToken
  | ValidateJWT
  | GetVideo string
  | ReadFormData
  | Write path
  | Spawn "string list"
  | UploadVideoToS3 string path string
  | UpdateVideo string
  | Rm path
  | RandomBytes nat

record state =
  fs :: "path \<rightharpoonup> blob"
  db :: "string \<rightharpoonup> Video"
  trace :: "event list"

definition emit :: "event \<Rightarrow> state \<Rightarrow> state" where
  "emit e s = s\<lparr>trace := trace s @ [e]\<rparr>"

text \<open>
  What the handlers import or call in the runtime, taken as parameters:
  \<^item> \<open>getBearerToken\<close> and \<open>validateJWT\<close> of \<open>../auth\<close>;
  \<open>uploadVideoToS3\<close> of \<open>../s3\<close>, given the configuration, the key, the path, the content
  type and the files present, which answers \<open>None\<close> when the upload succeeds;
  \<^item> \<open>path.join\<close>, \<open>JSON.parse\<close> (\<open>None\<close> for its \<open>SyntaxError\<close>), \<open>randomBytes\<close>;
  \<^item> \<open>spawn\<close>: what the process with the given command line prints and returns, and the
  files it leaves;
  \<^item> \<open>ToNumber_object\<close>: the conversion to a number of a string, an array or an object.
\<close>

record world =
  getBearerToken :: "(string \<times> string) list \<Rightarrow> error + string"
  validateJWT :: "string \<Rightarrow> string \<Rightarrow> error + string"
  uploadVideoToS3 :: "ApiConfig \<Rightarrow> string \<Rightarrow> path \<Rightarrow> string \<Rightarrow> (path \<rightharpoonup> blob) \<Rightarrow> error option"
  path_join :: "string list \<Rightarrow> path"
  JSON_parse :: "string \<Rightarrow> jsval option"
  randomBytes :: "nat \<Rightarrow> 8 word list"
  spawn :: "string list \<Rightarrow> (path \<rightharpoonup> blob) \<Rightarrow> proc_result \<times> (path \<rightharpoonup> blob)"
  ToNumber_object :: "jsval \<Rightarrow> error + jsnum"

text \<open>
  Modelled from the spec: \<open>getVideo\<close> and \<open>updateVideo\<close> of \<open>../db/videos\<close> are not part
  of the sources; section 6 gives the record store as \<open>get(id) -> Record | absent\<close> and
  \<open>update(Record) -> void\<close>.
\<close>

definition getVideo :: "(string \<rightharpoonup> Video) \<Rightarrow> string \<Rightarrow> Video option" where
  "getVideo d i = d i"

definition updateVideo :: "(string \<rightharpoonup> Video) \<Rightarrow> Video \<Rightarrow> (string \<rightharpoonup> Video)" where
  "updateVideo d v = d(video_id v \<mapsto> v)"

text \<open>\<open>Bun.write(path, data)\<close> and \<open>rm(path, { force: true })\<close>, both taken to succeed:
  the first creates or overwrites the file, the second removes it if it is there.\<close>

definition Bun_write :: "path \<Rightarrow> blob \<Rightarrow> state \<Rightarrow> state" where
  "Bun_write p b s = emit (Write p) (s\<lparr>fs := (fs s)(p \<mapsto> b)\<rparr>)"

definition rm_force :: "path \<Rightarrow> state \<Rightarrow> state" where
  "rm_force p s = emit (Rm p) (s\<lparr>fs := (fs s)(p := None)\<rparr>)"

definition Bun_spawn :: "world \<Rightarrow> string list \<Rightarrow> state \<Rightarrow> proc_result \<times> state" where
  "Bun_spawn w argv s =
     (fst (spawn w argv (fs s)), emit (Spawn argv) (s\<lparr>fs := snd (spawn w argv (fs s))\<rparr>))"

section \<open>getVideoAspectRatio\<close>

text \<open>The operand of \<open>/\<close> as a number.\<close>

fun ToNumber :: "world \<Rightarrow> jsval \<Rightarrow> error + jsnum" where
  "ToNumber w JUndefined = Inr NaN"
| "ToNumber w JNull = Inr (Fin 0)"
| "ToNumber w (JBool b) = Inr (Fin (if b then 1 else 0))"
| "ToNumber w (JNum n) = Inr n"
| "ToNumber w v = ToNumber_object w v"

definition TOLERANCE :: jsnum where
  "TOLERANCE = to_double (5 / 100)"

text \<open>Lines 93 to 102: the \<open>try\<close> block. What it throws is thrown again by the \<open>catch\<close>.\<close>

definition parse_dimensions :: "world \<Rightarrow> string \<Rightarrow> error + jsval \<times> jsval" where
  "parse_dimensions w out =
     (case JSON_parse w out of
        None \<Rightarrow> Inl SyntaxError
      | Some json \<Rightarrow>
          (case member json ''streams'' of
             Inl e \<Rightarrow> Inl e
           | Inr streams \<Rightarrow>
               if \<not> truthy (opt_member (opt_index0 streams) ''width'')
                  \<or> \<not> truthy (opt_member (opt_index0 streams) ''height'')
               then Inl (Error ''Width or height not found in ffprobe output'')
               else Inr (opt_member (opt_index0 streams) ''width'',
                         opt_member (opt_index0 streams) ''height'')))"

text \<open>Lines 106 to 112.\<close>

definition classify_ratio :: "jsnum \<Rightarrow> string" where
  "classify_ratio ratio =
     (if js_lt (Math_abs (js_sub ratio (js_div (Fin 16) (Fin 9)))) TOLERANCE then ''landscape''
      else if js_lt (Math_abs (js_sub ratio (js_div (Fin 9) (Fin 16)))) TOLERANCE then ''portrait''
      else ''other'')"

text \<open>Line 104, \<open>width / height\<close>, then the classification.\<close>

definition classify :: "world \<Rightarrow> jsval \<Rightarrow> jsval \<Rightarrow> error + string" where
  "classify w width height =
     (case ToNumber w width of
        Inl e \<Rightarrow> Inl e
      | Inr a \<Rightarrow>
          (case ToNumber w height of
             Inl e \<Rightarrow> Inl e
           | Inr b \<Rightarrow> Inr (classify_ratio (js_div a b))))"

definition ffprobe_argv :: "path \<Rightarrow> string list" where
  "ffprobe_argv filepath =
     [''ffprobe'', ''-v'', ''error'', ''-select_streams'', ''v:0'', ''-show_entries'',
      ''stream=width,height'', ''-of'', ''json'', filepath]"

definition getVideoAspectRatio :: "world \<Rightarrow> path \<Rightarrow> state \<Rightarrow> (error + string) \<times> state" where
  "getVideoAspectRatio w filepath s =
     (case Bun_spawn w (ffprobe_argv filepath) s of
        (proc, s1) \<Rightarrow>
          if exited proc \<noteq> 0 then (Inl (FfprobeFailed (exited proc) (stderr proc)), s1)
          else (case parse_dimensions w (stdout proc) of
                  Inl e \<Rightarrow> (Inl e, s1)
                | Inr (width, height) \<Rightarrow> (classify w width height, s1)))"

section \<open>processVideoForFastStart\<close>

definition ffmpeg_argv :: "path \<Rightarrow> path \<Rightarrow> string list" where
  "ffmpeg_argv inputFilePath outputFilePath =
     [''ffmpeg'', ''-i'', inputFilePath, ''-movflags'', ''faststart'', ''-map_metadata'', ''0'',
      ''-codec'', ''copy'', ''-f'', ''mp4'', outputFilePath]"

definition processVideoForFastStart :: "world \<Rightarrow> path \<Rightarrow> state \<Rightarrow> (error + path) \<times> state" where
  "processVideoForFastStart w inputFilePath s =
     (case Bun_spawn w (ffmpeg_argv inputFilePath (inputFilePath @ ''.processed'')) s of
        (proc, s1) \<Rightarrow>
          if exited proc \<noteq> 0 then (Inl (FfmpegFailed (exited proc) (stderr proc)), s1)
          else (Inr (inputFilePath @ ''.processed''), s1))"


section \<open>handlerUploadVideo\<close>

text \<open>\<open>a << n\<close> on 32-bit integers, as the language computes it.\<close>

definition js_shl :: "int \<Rightarrow> nat \<Rightarrow> int" where
  "js_shl a n = sint (push_bit (n mod 32) (word_of_int a :: 32 word))"

definition MAX_UPLOAD_SIZE :: int where
  "MAX_UPLOAD_SIZE = js_shl 1 30"

text \<open>Line 47, the key, and line 50, the URL.\<close>

definition storage_key :: "string \<Rightarrow> string \<Rightarrow> string" where
  "storage_key aspectRatio vid = aspectRatio @ ''/'' @ vid @ ''.mp4''"

definition video_url :: "ApiConfig \<Rightarrow> string \<Rightarrow> string" where
  "video_url cfg key =
     ''https://'' @ s3Bucket cfg @ ''.s3.'' @ s3Region cfg @ ''.amazonaws.com/'' @ key"

text \<open>Lines 43 to 56: everything after the checks, for the video \<open>video\<close> of the
  identifier \<open>vid\<close> and the file \<open>file\<close>.\<close>

definition store_video ::
  "world \<Rightarrow> ApiConfig \<Rightarrow> string \<Rightarrow> Video \<Rightarrow> File \<Rightarrow> state \<Rightarrow> (error + response) \<times> state" where
  "store_video w cfg vid video file s =
     (case getVideoAspectRatio w (path_join w [''/tmp'', vid @ ''.mp4''])
             (Bun_write (path_join w [''/tmp'', vid @ ''.mp4'']) (file_data file) s) of
        (Inl e, s1) \<Rightarrow> (Inl e, s1)
      | (Inr aspectRatio, s1) \<Rightarrow>
          (case uploadVideoToS3 w cfg (storage_key aspectRatio vid)
                  (path_join w [''/tmp'', vid @ ''.mp4'']) ''video/mp4'' (fs s1) of
             Some e \<Rightarrow>
               (Inl e, emit (UploadVideoToS3 (storage_key aspectRatio vid)
                               (path_join w [''/tmp'', vid @ ''.mp4'']) ''video/mp4'') s1)
           | None \<Rightarrow>
               (Inr (Response 200
                      (Some (video\<lparr>videoURL := Some (video_url cfg (storage_key aspectRatio vid))\<rparr>))),
                rm_force (path_join w [''/tmp'', vid @ ''.mp4''])
                  (emit (UpdateVideo (video_id video))
                    ((emit (UploadVideoToS3 (storage_key aspectRatio vid)
                              (path_join w [''/tmp'', vid @ ''.mp4'']) ''video/mp4'') s1)
                       \<lparr>db := updateVideo (db s1)
                          (video\<lparr>videoURL :=
                             Some (video_url cfg (storage_key aspectRatio vid))\<rparr>)\<rparr>)))))"

text \<open>Lines 31 to 41: the form is read and the file checked.\<close>

definition check_video_file ::
  "world \<Rightarrow> ApiConfig \<Rightarrow> Request \<Rightarrow> string \<Rightarrow> Video \<Rightarrow> state \<Rightarrow> (error + response) \<times> state" where
  "check_video_file w cfg req vid video s =
     (case formData req of
        Inl e \<Rightarrow> (Inl e, emit ReadFormData s)
      | Inr form \<Rightarrow>
          (case map_of form ''video'' of
             Some (FormFile file) \<Rightarrow>
               if MAX_UPLOAD_SIZE < int (file_size file)
               then (Inl (BadRequestError ''File exceeds size limit (1GB)''), emit ReadFormData s)
               else if file_type file \<noteq> ''video/mp4''
               then (Inl (BadRequestError ''Invalid file type, only MP4 is allowed''),
                     emit ReadFormData s)
               else store_video w cfg vid video file (emit ReadFormData s)
           | _ \<Rightarrow> (Inl (BadRequestError ''Video file missing''), emit ReadFormData s)))"

text \<open>Lines 12 to 29, then the rest.\<close>

definition handlerUploadVideo ::
  "world \<Rightarrow> ApiConfig \<Rightarrow> Request \<Rightarrow> state \<Rightarrow> (error + response) \<times> state" where
  "handlerUploadVideo w cfg req s =
     (case videoId req of
        None \<Rightarrow> (Inl (BadRequestError ''Invalid video ID''), s)
      | Some vid \<Rightarrow>
          if vid = [] then (Inl (BadRequestError ''Invalid video ID''), s)
          else (case getBearerToken w (headers req) of
                  Inl e \<Rightarrow> (Inl e, emit GetBearerToken s)
                | Inr token \<Rightarrow>
                    (case validateJWT w token (jwtSecret cfg) of
                       Inl e \<Rightarrow> (Inl e, emit ValidateJWT (emit GetBearerToken s))
                     | Inr user \<Rightarrow>
                         (case getVideo (db s) vid of
                            None \<Rightarrow>
                              (Inl (NotFoundError ''Couldn't find video''),
                               emit (GetVideo vid) (emit ValidateJWT (emit GetBearerToken s)))
                          | Some video \<Rightarrow>
                              if userID video \<noteq> user
                              then (Inl (UserForbiddenError ''Not authorized to update this video''),
                                    emit (GetVideo vid) (emit ValidateJWT (emit GetBearerToken s)))
                              else check_video_file w cfg req vid video
                                     (emit (GetVideo vid)
                                        (emit ValidateJWT (emit GetBearerToken s)))))))"

section \<open>handlerUploadThumbnail\<close>

text \<open>\<open>buffer.toString("base64url")\<close>: three bytes give four characters of the URL-safe
  alphabet, and the last one or two bytes give two or three, with no padding.\<close>

definition b64_alphabet :: string where
  "b64_alphabet = ''ABCDEFGHIJKLMNOPQRSTUVWXYZabcdefghijklmnopqrstuvwxyz0123456789-_''"

definition sextet :: "nat \<Rightarrow> char" where
  "sextet n = b64_alphabet ! (n mod 64)"

fun base64url :: "8 word list \<Rightarrow> string" where
  "base64url [] = []"
| "base64url [a] = [sextet (unat a div 4), sextet (unat a * 16)]"
| "base64url [a, b] =
     [sextet (unat a div 4), sextet (unat a * 16 + unat b div 16), sextet (unat b * 4)]"
| "base64url (a # b # c # rest) =
     [sextet (unat a div 4), sextet (unat a * 16 + unat b div 16),
      sextet (unat b * 4 + unat c div 64), sextet (unat c)] @ base64url rest"






section \<open>Reading a run\<close>

text \<open>The calls a handler made: what it appended to the trace of the state it started in.\<close>

definition events_of :: "state \<Rightarrow> state \<Rightarrow> event list" where
  "events_of s s' = drop (length (trace s)) (trace s')"

section \<open>A sample deployment\<close>

text \<open>
  Concrete collaborators, on which the handlers are run: a validator that knows one token,
  a \<open>path.join\<close> on plain segments, an ffprobe that ends as \<open>proc\<close> says and whose output
  \<open>JSON.parse\<close> reads as \<open>json\<close>, an uploader that answers \<open>s3\<close>, and a conversion to a
  number that finds none (it is applied to the string \<open>N/A\<close> only).
\<close>

definition join_slash :: "string list \<Rightarrow> path" where
  "join_slash parts =
     (case parts of [] \<Rightarrow> ''.'' | p # ps \<Rightarrow> foldl (\<lambda>acc x. acc @ ''/'' @ x) p ps)"

definition sample_world :: "proc_result \<Rightarrow> jsval option \<Rightarrow> error option \<Rightarrow> world" where
  "sample_world proc json s3 =
     \<lparr> getBearerToken = (\<lambda>hs. case map_of hs ''Authorization'' of
           None \<Rightarrow> Inl (Unauthorized ''no credential'')
         | Some v \<Rightarrow> if take 7 v = ''Bearer '' then Inr (drop 7 v)
                     else Inl (Unauthorized ''no credential'')),
       validateJWT = (\<lambda>token secret. if token = ''token-of-alice'' then Inr ''alice''
                                     else Inl (Unauthorized ''bad token'')),
       uploadVideoToS3 = (\<lambda>cfg key p ctype files. s3),
       path_join = join_slash,
       JSON_parse = (\<lambda>out. if out = stdout proc then json else None),
       randomBytes = (\<lambda>n. replicate n 0),
       spawn = (\<lambda>argv files. (proc, files)),
       ToNumber_object = (\<lambda>v. Inr NaN) \<rparr>"

definition sample_cfg :: ApiConfig where
  "sample_cfg = \<lparr> jwtSecret = ''secret'', s3Bucket = ''tubely'', s3Region = ''us-east-2'',
                   assetsRoot = ''./assets'', port = ''8091'' \<rparr>"

definition sample_video :: Video where
  "sample_video =
     \<lparr> video_id = ''abc123'', userID = ''alice'', videoURL = None, thumbnailURL = None \<rparr>"

definition sample_state :: state where
  "sample_state = \<lparr> fs = Map.empty, db = [''abc123'' \<mapsto> sample_video], trace = [] \<rparr>"

text \<open>A request for the video \<open>abc123\<close> with one file of \<open>n\<close> bytes in the field \<open>field\<close>.\<close>

definition sample_request :: "string \<Rightarrow> string \<Rightarrow> nat \<Rightarrow> string \<Rightarrow> Request" where
  "sample_request token field n mtype =
     \<lparr> videoId = Some ''abc123'', headers = [(''Authorization'', ''Bearer '' @ token)],
       formData = Inr [(field, FormFile \<lparr> file_size = n, file_type = mtype,
                                          file_data = Blob 7 \<rparr>)] \<rparr>"

text \<open>What \<open>{"streams": [{"width": W, "height": H}]}\<close> parses to.\<close>

definition dims_json :: "jsval \<Rightarrow> jsval \<Rightarrow> jsval" where
  "dims_json width height =
     JObj [(''streams'', JArr [JObj [(''width'', width), (''height'', height)]])]"

text \<open>What ffprobe prints, white space aside, and how it ends.\<close>

definition out_1920x1080 :: string where
  \<open>out_1920x1080 = ''{"streams":[{"width":1920,"height":1080}]}''\<close>

definition out_width_true :: string where
  \<open>out_width_true = ''{"streams":[{"width":true,"height":1080}]}''\<close>

definition out_height_na :: string where
  \<open>out_height_na = ''{"streams":[{"width":1920,"height":"N/A"}]}''\<close>

definition out_width_zero :: string where
  \<open>out_width_zero = ''{"streams":[{"width":0,"height":1080}]}''\<close>

definition out_no_stream :: string where
  \<open>out_no_stream = ''{"streams":[]}''\<close>

definition out_311x180 :: string where
  \<open>out_311x180 = ''{"streams":[{"width":311,"height":180}]}''\<close>

definition ffprobe_prints :: "string \<Rightarrow> proc_result" where
  "ffprobe_prints out = \<lparr> exited = 0, stdout = out, stderr = [] \<rparr>"

definition ffprobe_fails :: proc_result where
  "ffprobe_fails = \<lparr> exited = 1, stdout = [], stderr = ''Invalid data found'' \<rparr>"

text \<open>Deployments: one where everything works on a 1920 by 1080 video, one whose ffprobe
  exits with status 1, one whose object store refuses the upload, and five whose ffprobe
  reports other dimensions.\<close>

definition world_ok :: world where
  "world_ok = sample_world (ffprobe_prints out_1920x1080)
     (Some (dims_json (JNum (Fin 1920)) (JNum (Fin 1080)))) None"

definition world_probe_fails :: world where
  "world_probe_fails = sample_world ffprobe_fails None None"

definition world_upload_fails :: world where
  "world_upload_fails = sample_world (ffprobe_prints out_1920x1080)
     (Some (dims_json (JNum (Fin 1920)) (JNum (Fin 1080)))) (Some (StorageFailure ''put failed''))"

definition world_width_true :: world where
  "world_width_true = sample_world (ffprobe_prints out_width_true)
     (Some (dims_json (JBool True) (JNum (Fin 1080)))) None"

definition world_height_na :: world where
  "world_height_na = sample_world (ffprobe_prints out_height_na)
     (Some (dims_json (JNum (Fin 1920)) (JStr ''N/A''))) None"

definition world_width_zero :: world where
  "world_width_zero = sample_world (ffprobe_prints out_width_zero)
     (Some (dims_json (JNum (Fin 0)) (JNum (Fin 1080)))) None"

definition world_no_stream :: world where
  "world_no_stream = sample_world (ffprobe_prints out_no_stream)
     (Some (JObj [(''streams'', JArr [])])) None"

definition world_311x180 :: world where
  "world_311x180 = sample_world (ffprobe_prints out_311x180)
     (Some (dims_json (JNum (Fin 311)) (JNum (Fin 180)))) None"

definition upload_request :: Request where
  "upload_request = sample_request ''token-of-alice'' ''video'' (2 ^ 30) ''video/mp4''"

section \<open>Basic facts\<close>

lemma emit_simps [simp]:
  "trace (emit e s) = trace s @ [e]" "fs (emit e s) = fs s" "db (emit e s) = db s"
  by (simp_all add: emit_def)

lemma events_of_self [simp]: "events_of s s = []"
  by (simp add: events_of_def)

lemma MAX_UPLOAD_SIZE_val: "MAX_UPLOAD_SIZE = 2 ^ 30"
  by (simp add: MAX_UPLOAD_SIZE_def js_shl_def)


lemma probe_state [simp]:
  "db (snd (getVideoAspectRatio w p s)) = db s"
  "trace (snd (getVideoAspectRatio w p s)) = trace s @ [Spawn (ffprobe_argv p)]"
  "fs (snd (getVideoAspectRatio w p s)) = snd (spawn w (ffprobe_argv p) (fs s))"
  by (simp_all add: getVideoAspectRatio_def Bun_spawn_def split: sum.splits prod.splits)

lemma write_state [simp]:
  "db (Bun_write p b s) = db s"
  "trace (Bun_write p b s) = trace s @ [Write p]"
  "fs (Bun_write p b s) = (fs s)(p \<mapsto> b)"
  by (simp_all add: Bun_write_def)

lemma rm_state [simp]:
  "db (rm_force p s) = db s"
  "trace (rm_force p s) = trace s @ [Rm p]"
  "fs (rm_force p s) = (fs s)(p := None)"
  by (simp_all add: rm_force_def)

text \<open>The part of the video handler after the checks, by the outcome of the probe and of
  the upload.\<close>

lemma store_video_cases:
  "store_video w cfg vid video file s =
    (let tmp = path_join w [''/tmp'', vid @ ''.mp4''];
         P = getVideoAspectRatio w tmp (Bun_write tmp (file_data file) s)
     in case fst P of
          Inl e \<Rightarrow> (Inl e, snd P)
        | Inr a \<Rightarrow>
           (case uploadVideoToS3 w cfg (storage_key a vid) tmp ''video/mp4'' (fs (snd P)) of
              Some e \<Rightarrow> (Inl e, emit (UploadVideoToS3 (storage_key a vid) tmp ''video/mp4'') (snd P))
            | None \<Rightarrow>
               (Inr (Response 200
                      (Some (video\<lparr>videoURL := Some (video_url cfg (storage_key a vid))\<rparr>))),
                rm_force tmp (emit (UpdateVideo (video_id video))
                  ((emit (UploadVideoToS3 (storage_key a vid) tmp ''video/mp4'') (snd P))
                     \<lparr>db := updateVideo (db (snd P))
                        (video\<lparr>videoURL := Some (video_url cfg (storage_key a vid))\<rparr>)\<rparr>)))))"
  by (simp add: store_video_def Let_def split: prod.splits sum.splits option.splits)

lemmas handler_unfold =
  handlerUploadVideo_def check_video_file_def store_video_cases events_of_def Let_def

lemmas handler_splits = sum.splits option.splits form_value.splits if_splits


lemmas sample_defs =
  sample_world_def sample_cfg_def sample_request_def sample_state_def sample_video_def
  dims_json_def ffprobe_prints_def ffprobe_fails_def join_slash_def world_ok_def
  world_probe_fails_def world_upload_fails_def world_width_true_def world_height_na_def
  world_width_zero_def world_no_stream_def world_311x180_def out_311x180_def
  upload_request_def

lemmas probe_defs =
  getVideoAspectRatio_def Bun_spawn_def parse_dimensions_def classify_def opt_member_def
  ffprobe_argv_def

subsection \<open>The models of the runtime on known values\<close>

lemma base64url_vectors:
  "base64url [0x4d, 0x61, 0x6e] = ''TWFu''"
  "base64url [0x4d, 0x61] = ''TWE''"
  "base64url [0x4d] = ''TQ''"
  "base64url [0xfb, 0xff] = ''-_8''"
  by code_simp+

lemma js_shl_wraps: "js_shl 1 31 = - 2147483648" "js_shl 1 32 = 1"
  by (simp_all add: js_shl_def)

text \<open>\<open>1 / 3\<close> is \<open>0.333333333333333314829616256247...\<close>, and \<open>2^53 + 1\<close> is not a
  binary64 number.\<close>

lemma to_double_values:
  "js_div (Fin 1) (Fin 3) = Fin (6004799503160661 / 18014398509481984)"
  "to_double (2 ^ 53 + 1) = Fin (2 ^ 53)"
  "to_double (2 ^ 53 + 3) = Fin (2 ^ 53 + 4)"
  by code_simp+

subsection \<open>Rounded constants\<close>

lemma tolerance_val: "TOLERANCE = Fin (3602879701896397 / 72057594037927936)"
  unfolding TOLERANCE_def by code_simp

lemma ratio_16_9: "classify_ratio (to_double (16 / 9)) = ''landscape''"
  by code_simp

lemma ratio_9_16: "classify_ratio (to_double (9 / 16)) = ''portrait''"
  by code_simp

lemma ratio_1: "classify_ratio (to_double 1) = ''other''"
  by code_simp

lemma ratio_tiny: "classify_ratio (to_double (1 / 1080)) = ''other''"
  by code_simp

lemma ratio_nan: "classify_ratio NaN = ''other''"
  by code_simp

text \<open>Where the exact ratio is 0.05 away from 16/9, the rounded computation decides: 311 by
  180 is landscape, 329 by 180 is not.\<close>

lemma boundary_ratios:
  "classify_ratio (to_double (311 / 180)) = ''landscape''"
  "classify_ratio (to_double (329 / 180)) = ''other''"
  by code_simp+

lemma classify_ratio_range: "classify_ratio r \<in> {''landscape'', ''portrait'', ''other''}"
  by (simp add: classify_ratio_def)

lemma probe_result_range:
  "fst (getVideoAspectRatio w p s) = Inr a \<Longrightarrow> a \<in> {''landscape'', ''portrait'', ''other''}"
  using classify_ratio_range
  by (auto simp: getVideoAspectRatio_def Bun_spawn_def classify_def
           split: sum.splits prod.splits if_splits)

lemma probe_numbers:
  assumes "exited (fst (spawn w (ffprobe_argv p) (fs s))) = 0"
    and "JSON_parse w (stdout (fst (spawn w (ffprobe_argv p) (fs s)))) = Some json"
    and "member json ''streams'' = Inr streams"
    and "opt_member (opt_index0 streams) ''width'' = JNum a"
    and "opt_member (opt_index0 streams) ''height'' = JNum b"
    and "a \<noteq> NaN" "a \<noteq> Fin 0" "b \<noteq> NaN" "b \<noteq> Fin 0"
  shows "fst (getVideoAspectRatio w p s) = Inr (classify_ratio (js_div a b))"
  using assms
  by (simp add: getVideoAspectRatio_def Bun_spawn_def parse_dimensions_def classify_def)

lemma classify_examples:
  "classify w (JNum (Fin 1920)) (JNum (Fin 1080)) = Inr ''landscape''"
  "classify w (JNum (Fin 1080)) (JNum (Fin 1920)) = Inr ''portrait''"
  "classify w (JNum (Fin 1000)) (JNum (Fin 1000)) = Inr ''other''"
  by (simp_all add: classify_def ratio_16_9 ratio_9_16 ratio_1)

subsection \<open>Sample runs\<close>

lemma run_ok:
  "fst (handlerUploadVideo world_ok sample_cfg upload_request sample_state) =
     Inr (Response 200 (Some (sample_video\<lparr>videoURL :=
       Some ''https://tubely.s3.us-east-2.amazonaws.com/landscape/abc123.mp4''\<rparr>)))"
  "events_of sample_state (snd (handlerUploadVideo world_ok sample_cfg upload_request sample_state)) =
     [GetBearerToken, ValidateJWT, GetVideo ''abc123'', ReadFormData, Write ''/tmp/abc123.mp4'',
      Spawn (ffprobe_argv ''/tmp/abc123.mp4''),
      UploadVideoToS3 ''landscape/abc123.mp4'' ''/tmp/abc123.mp4'' ''video/mp4'',
      UpdateVideo ''abc123'', Rm ''/tmp/abc123.mp4'']"
  "db (snd (handlerUploadVideo world_ok sample_cfg upload_request sample_state)) ''abc123'' =
     Some (sample_video\<lparr>videoURL :=
       Some ''https://tubely.s3.us-east-2.amazonaws.com/landscape/abc123.mp4''\<rparr>)"
  "fs (snd (handlerUploadVideo world_ok sample_cfg upload_request sample_state)) = Map.empty"
  by (simp_all add: sample_defs handler_unfold probe_defs getVideo_def updateVideo_def
        storage_key_def video_url_def MAX_UPLOAD_SIZE_val ratio_16_9)

lemma run_probe_fails:
  "fst (handlerUploadVideo world_probe_fails sample_cfg upload_request sample_state) =
     Inl (FfprobeFailed 1 ''Invalid data found'')"
  "events_of sample_state
     (snd (handlerUploadVideo world_probe_fails sample_cfg upload_request sample_state)) =
     [GetBearerToken, ValidateJWT, GetVideo ''abc123'', ReadFormData, Write ''/tmp/abc123.mp4'',
      Spawn (ffprobe_argv ''/tmp/abc123.mp4'')]"
  "db (snd (handlerUploadVideo world_probe_fails sample_cfg upload_request sample_state)) =
     db sample_state"
  "fs (snd (handlerUploadVideo world_probe_fails sample_cfg upload_request sample_state))
     ''/tmp/abc123.mp4'' = Some (Blob 7)"
  by (simp_all add: sample_defs handler_unfold probe_defs getVideo_def updateVideo_def
        storage_key_def video_url_def MAX_UPLOAD_SIZE_val)

lemma run_upload_fails:
  "fst (handlerUploadVideo world_upload_fails sample_cfg upload_request sample_state) =
     Inl (StorageFailure ''put failed'')"
  "events_of sample_state
     (snd (handlerUploadVideo world_upload_fails sample_cfg upload_request sample_state)) =
     [GetBearerToken, ValidateJWT, GetVideo ''abc123'', ReadFormData, Write ''/tmp/abc123.mp4'',
      Spawn (ffprobe_argv ''/tmp/abc123.mp4''),
      UploadVideoToS3 ''landscape/abc123.mp4'' ''/tmp/abc123.mp4'' ''video/mp4'']"
  "db (snd (handlerUploadVideo world_upload_fails sample_cfg upload_request sample_state)) =
     db sample_state"
  "fs (snd (handlerUploadVideo world_upload_fails sample_cfg upload_request sample_state))
     ''/tmp/abc123.mp4'' = Some (Blob 7)"
  by (simp_all add: sample_defs handler_unfold probe_defs getVideo_def updateVideo_def
        storage_key_def video_url_def MAX_UPLOAD_SIZE_val ratio_16_9)


section \<open>The video upload handler\<close>

text \<open>
  C9. A request whose \<open>videoId\<close> path parameter is absent or empty fails with
  \<open>BadRequestError\<close> before the credential is looked at: whatever the collaborators would
  answer, the handler returns the error and the state it started in, so that no call to
  \<open>getBearerToken\<close> or \<open>validateJWT\<close> (or to anything else) has been made.
\<close>

theorem missing_video_id_is_rejected_first:
  "videoId req = None \<or> videoId req = Some [] \<Longrightarrow>
     handlerUploadVideo w cfg req s = (Inl (BadRequestError ''Invalid video ID''), s)"
  by (auto simp: handlerUploadVideo_def)

theorem missing_video_id_is_rejected_first_witness:
  "videoId (upload_request\<lparr>videoId := Some []\<rparr>) = Some [] \<and>
   handlerUploadVideo world_probe_fails sample_cfg (upload_request\<lparr>videoId := Some []\<rparr>)
       sample_state =
     (Inl (BadRequestError ''Invalid video ID''), sample_state)"
  using missing_video_id_is_rejected_first
    [of "upload_request\<lparr>videoId := Some []\<rparr>" world_probe_fails sample_cfg sample_state]
  by simp

text \<open>
  C4. A request whose credential is missing or invalid (\<open>getBearerToken\<close> or \<open>validateJWT\<close>
  throws), whose identifier matches no record, or whose resolved identity does not own the
  record, fails before the body is read and before any file is written: the handler returns
  an error, the file system and the table of videos are as before, and the only calls made
  are those to \<open>getBearerToken\<close>, \<open>validateJWT\<close> and \<open>getVideo\<close>. For a request with a
  non-empty identifier the error is the one the credential check threw (the one the spec
  calls Unauthorized), \<open>NotFoundError\<close> when the credential is valid and no record exists,
  and \<open>UserForbiddenError\<close> when the record belongs to somebody else.
\<close>

theorem authorization_precedes_body:
  "let R = handlerUploadVideo w cfg req s in
    (((\<exists>e. getBearerToken w (headers req) = Inl e) \<or>
      (\<exists>e token. getBearerToken w (headers req) = Inr token \<and>
          validateJWT w token (jwtSecret cfg) = Inl e) \<or>
      (\<exists>vid. videoId req = Some vid \<and> db s vid = None) \<or>
      (\<exists>vid token user video. videoId req = Some vid \<and>
          getBearerToken w (headers req) = Inr token \<and>
          validateJWT w token (jwtSecret cfg) = Inr user \<and>
          db s vid = Some video \<and> userID video \<noteq> user))
     \<longrightarrow> (\<exists>e. fst R = Inl e) \<and> fs (snd R) = fs s \<and> db (snd R) = db s \<and>
         set (events_of s (snd R)) \<subseteq> {GetBearerToken, ValidateJWT} \<union> range GetVideo) \<and>
    (\<forall>vid. videoId req = Some vid \<and> vid \<noteq> [] \<longrightarrow>
      (\<forall>e. getBearerToken w (headers req) = Inl e \<longrightarrow> fst R = Inl e) \<and>
      (\<forall>e token. getBearerToken w (headers req) = Inr token \<and>
          validateJWT w token (jwtSecret cfg) = Inl e \<longrightarrow> fst R = Inl e) \<and>
      (\<forall>token user. getBearerToken w (headers req) = Inr token \<and>
          validateJWT w token (jwtSecret cfg) = Inr user \<and> db s vid = None
          \<longrightarrow> fst R = Inl (NotFoundError ''Couldn't find video'')) \<and>
      (\<forall>token user video. getBearerToken w (headers req) = Inr token \<and>
          validateJWT w token (jwtSecret cfg) = Inr user \<and>
          db s vid = Some video \<and> userID video \<noteq> user
          \<longrightarrow> fst R = Inl (UserForbiddenError ''Not authorized to update this video'')))"
  by (auto simp: handlerUploadVideo_def getVideo_def Let_def events_of_def
           split: sum.splits option.splits)

theorem authorization_precedes_body_witness:
  "getBearerToken world_ok (headers (sample_request ''token-of-mallory'' ''video'' 5 ''video/mp4''))
     = Inr ''token-of-mallory'' \<and>
   validateJWT world_ok ''token-of-mallory'' (jwtSecret sample_cfg) = Inl (Unauthorized ''bad token'') \<and>
   fst (handlerUploadVideo world_ok sample_cfg
          (sample_request ''token-of-mallory'' ''video'' 5 ''video/mp4'') sample_state)
     = Inl (Unauthorized ''bad token'') \<and>
   fs (snd (handlerUploadVideo world_ok sample_cfg
          (sample_request ''token-of-mallory'' ''video'' 5 ''video/mp4'') sample_state)) = Map.empty \<and>
   set (events_of sample_state (snd (handlerUploadVideo world_ok sample_cfg
          (sample_request ''token-of-mallory'' ''video'' 5 ''video/mp4'') sample_state)))
     \<subseteq> {GetBearerToken, ValidateJWT} \<union> range GetVideo \<and>
   db (sample_state\<lparr>db := Map.empty\<rparr>) ''abc123'' = None \<and>
   fst (handlerUploadVideo world_ok sample_cfg upload_request (sample_state\<lparr>db := Map.empty\<rparr>))
     = Inl (NotFoundError ''Couldn't find video'') \<and>
   userID sample_video \<noteq> ''bob'' \<and>
   fst (handlerUploadVideo world_ok sample_cfg upload_request
          (sample_state\<lparr>db := [''abc123'' \<mapsto> sample_video\<lparr>userID := ''bob''\<rparr>]\<rparr>))
     = Inl (UserForbiddenError ''Not authorized to update this video'')"
  using authorization_precedes_body
      [of world_ok sample_cfg "sample_request ''token-of-mallory'' ''video'' 5 ''video/mp4''"
          sample_state]
    authorization_precedes_body
      [of world_ok sample_cfg upload_request "sample_state\<lparr>db := Map.empty\<rparr>"]
    authorization_precedes_body
      [of world_ok sample_cfg upload_request
          "sample_state\<lparr>db := [''abc123'' \<mapsto> sample_video\<lparr>userID := ''bob''\<rparr>]\<rparr>"]
  by (simp add: Let_def sample_defs)


text \<open>
  C6. For a request that has passed the identifier, credential and ownership checks and
  carries a file in the field \<open>video\<close>: a file of at most \<open>2^30\<close> bytes (so one of exactly
  1 GiB) with the type \<open>video/mp4\<close> passes the checks, the next call being the write of the
  staged file; a file of more than \<open>2^30\<close> bytes (so one of \<open>2^30 + 1\<close>) fails with
  \<open>BadRequestError\<close>; and a file within the cap whose type is not exactly \<open>video/mp4\<close> fails
  with \<open>BadRequestError\<close>. In both failures the calls made are the three checks and the
  reading of the form, and no file has been written and no process started.
\<close>

theorem size_and_type_boundary:
  assumes "videoId req = Some vid" and "vid \<noteq> []"
    and "getBearerToken w (headers req) = Inr token"
    and "validateJWT w token (jwtSecret cfg) = Inr user"
    and "db s vid = Some video" and "userID video = user"
    and "formData req = Inr form" and "map_of form ''video'' = Some (FormFile file)"
  shows "let R = handlerUploadVideo w cfg req s;
             checked = [GetBearerToken, ValidateJWT, GetVideo vid, ReadFormData] in
    (file_size file \<le> 2 ^ 30 \<and> file_type file = ''video/mp4'' \<longrightarrow>
       take 5 (events_of s (snd R)) = checked @ [Write (path_join w [''/tmp'', vid @ ''.mp4''])]) \<and>
    (2 ^ 30 < file_size file \<longrightarrow>
       fst R = Inl (BadRequestError ''File exceeds size limit (1GB)'') \<and>
       events_of s (snd R) = checked \<and> fs (snd R) = fs s) \<and>
    (file_size file \<le> 2 ^ 30 \<and> file_type file \<noteq> ''video/mp4'' \<longrightarrow>
       fst R = Inl (BadRequestError ''Invalid file type, only MP4 is allowed'') \<and>
       events_of s (snd R) = checked \<and> fs (snd R) = fs s)"
  using assms
  by (auto simp: handler_unfold getVideo_def MAX_UPLOAD_SIZE_val split: handler_splits)

theorem size_and_type_boundary_witness:
  "take 5 (events_of sample_state
      (snd (handlerUploadVideo world_ok sample_cfg
              (sample_request ''token-of-alice'' ''video'' (2 ^ 30) ''video/mp4'') sample_state))) =
     [GetBearerToken, ValidateJWT, GetVideo ''abc123'', ReadFormData, Write ''/tmp/abc123.mp4''] \<and>
   fst (handlerUploadVideo world_ok sample_cfg
          (sample_request ''token-of-alice'' ''video'' (2 ^ 30 + 1) ''video/mp4'') sample_state) =
     Inl (BadRequestError ''File exceeds size limit (1GB)'') \<and>
   events_of sample_state
     (snd (handlerUploadVideo world_ok sample_cfg
          (sample_request ''token-of-alice'' ''video'' (2 ^ 30 + 1) ''video/mp4'') sample_state)) =
     [GetBearerToken, ValidateJWT, GetVideo ''abc123'', ReadFormData] \<and>
   fst (handlerUploadVideo world_ok sample_cfg
          (sample_request ''token-of-alice'' ''video'' (2 ^ 30) ''video/webm'') sample_state) =
     Inl (BadRequestError ''Invalid file type, only MP4 is allowed'') \<and>
   events_of sample_state
     (snd (handlerUploadVideo world_ok sample_cfg
          (sample_request ''token-of-alice'' ''video'' (2 ^ 30) ''video/webm'') sample_state)) =
     [GetBearerToken, ValidateJWT, GetVideo ''abc123'', ReadFormData]"
proof -
  let ?file = "\<lambda>n t. \<lparr>file_size = n, file_type = t, file_data = Blob 7\<rparr>"
  have hyps: "videoId (sample_request ''token-of-alice'' ''video'' n t) = Some ''abc123''"
    "''abc123'' \<noteq> []"
    "getBearerToken world_ok (headers (sample_request ''token-of-alice'' ''video'' n t))
       = Inr ''token-of-alice''"
    "validateJWT world_ok ''token-of-alice'' (jwtSecret sample_cfg) = Inr ''alice''"
    "db sample_state ''abc123'' = Some sample_video" "userID sample_video = ''alice''"
    "formData (sample_request ''token-of-alice'' ''video'' n t) = Inr [(''video'', FormFile (?file n t))]"
    "map_of [(''video'', FormFile (?file n t))] ''video'' = Some (FormFile (?file n t))"
    for n t
    by (simp_all add: sample_defs)
  have join: "path_join world_ok [''/tmp'', ''abc123.mp4''] = ''/tmp/abc123.mp4''"
    by (simp add: sample_defs)
  show ?thesis
    using size_and_type_boundary [OF hyps, of "2 ^ 30" "''video/mp4''"]
      size_and_type_boundary [OF hyps, of "2 ^ 30 + 1" "''video/mp4''"]
      size_and_type_boundary [OF hyps, of "2 ^ 30" "''video/webm''"]
    by (simp add: Let_def join)
qed


lemma probe_depends_on_files:
  "fs s = fs s' \<Longrightarrow> fst (getVideoAspectRatio w p s) = fst (getVideoAspectRatio w p s')"
  by (simp add: getVideoAspectRatio_def Bun_spawn_def split: prod.splits sum.splits)

lemma run_with_classification:
  assumes "videoId req = Some vid" and "vid \<noteq> []"
    and "getBearerToken w (headers req) = Inr token"
    and "validateJWT w token (jwtSecret cfg) = Inr user"
    and "db s vid = Some video" and "userID video = user"
    and "formData req = Inr form" and "map_of form ''video'' = Some (FormFile file)"
    and "file_size file \<le> 2 ^ 30" and "file_type file = ''video/mp4''"
    and "fst (getVideoAspectRatio w (path_join w [''/tmp'', vid @ ''.mp4''])
           (s\<lparr>fs := (fs s)(path_join w [''/tmp'', vid @ ''.mp4''] \<mapsto> file_data file)\<rparr>)) =
         Inr classification"
  shows "take 7 (events_of s (snd (handlerUploadVideo w cfg req s))) =
       [GetBearerToken, ValidateJWT, GetVideo vid, ReadFormData,
        Write (path_join w [''/tmp'', vid @ ''.mp4'']),
        Spawn (ffprobe_argv (path_join w [''/tmp'', vid @ ''.mp4''])),
        UploadVideoToS3 (classification @ ''/'' @ vid @ ''.mp4'')
          (path_join w [''/tmp'', vid @ ''.mp4'']) ''video/mp4'']"
    and "\<forall>k p c. UploadVideoToS3 k p c \<in> set (events_of s (snd (handlerUploadVideo w cfg req s)))
           \<longrightarrow> k = classification @ ''/'' @ vid @ ''.mp4''"
    and "\<forall>r. fst (handlerUploadVideo w cfg req s) = Inr r \<longrightarrow>
           r = Response 200 (Some (video\<lparr>videoURL := Some (''https://'' @ s3Bucket cfg @ ''.s3.'' @
                 s3Region cfg @ ''.amazonaws.com/'' @ classification @ ''/'' @ vid @ ''.mp4'')\<rparr>)) \<and>
           db (snd (handlerUploadVideo w cfg req s)) (video_id video) =
             Some (video\<lparr>videoURL := Some (''https://'' @ s3Bucket cfg @ ''.s3.'' @
                 s3Region cfg @ ''.amazonaws.com/'' @ classification @ ''/'' @ vid @ ''.mp4'')\<rparr>)"
proof -
  let ?tmp = "path_join w [''/tmp'', vid @ ''.mp4'']"
  let ?s = "Bun_write ?tmp (file_data file)
     (emit ReadFormData (emit (GetVideo vid) (emit ValidateJWT (emit GetBearerToken s))))"
  have "fst (getVideoAspectRatio w ?tmp ?s) =
      fst (getVideoAspectRatio w ?tmp (s\<lparr>fs := (fs s)(?tmp \<mapsto> file_data file)\<rparr>))"
    by (rule probe_depends_on_files) simp
  with assms(11) have probe: "fst (getVideoAspectRatio w ?tmp ?s) = Inr classification"
    by simp
  show "take 7 (events_of s (snd (handlerUploadVideo w cfg req s))) =
       [GetBearerToken, ValidateJWT, GetVideo vid, ReadFormData, Write ?tmp,
        Spawn (ffprobe_argv ?tmp),
        UploadVideoToS3 (classification @ ''/'' @ vid @ ''.mp4'') ?tmp ''video/mp4'']"
    using assms(1-10) probe
    by (auto simp: handler_unfold getVideo_def storage_key_def MAX_UPLOAD_SIZE_val
             split: handler_splits)
  show "\<forall>k p c. UploadVideoToS3 k p c \<in> set (events_of s (snd (handlerUploadVideo w cfg req s)))
           \<longrightarrow> k = classification @ ''/'' @ vid @ ''.mp4''"
    using assms(1-10) probe
    by (auto simp: handler_unfold getVideo_def storage_key_def MAX_UPLOAD_SIZE_val
             split: handler_splits)
  show "\<forall>r. fst (handlerUploadVideo w cfg req s) = Inr r \<longrightarrow>
           r = Response 200 (Some (video\<lparr>videoURL := Some (''https://'' @ s3Bucket cfg @ ''.s3.'' @
                 s3Region cfg @ ''.amazonaws.com/'' @ classification @ ''/'' @ vid @ ''.mp4'')\<rparr>)) \<and>
           db (snd (handlerUploadVideo w cfg req s)) (video_id video) =
             Some (video\<lparr>videoURL := Some (''https://'' @ s3Bucket cfg @ ''.s3.'' @
                 s3Region cfg @ ''.amazonaws.com/'' @ classification @ ''/'' @ vid @ ''.mp4'')\<rparr>)"
    using assms(1-10) probe
    by (auto simp: handler_unfold getVideo_def updateVideo_def storage_key_def video_url_def
          MAX_UPLOAD_SIZE_val split: handler_splits)
qed

text \<open>
  C8. For every classification and identifier: when a request for the identifier \<open>vid\<close>
  passes the checks and the prober, run on the staged file, returns \<open>classification\<close>,
  the key handed to the uploader, whether the upload then succeeds or fails, is
  \<open>{classification}/{vid}.mp4\<close>, and no other key is handed to it; and when the handler
  succeeds, the URL it returns and stores in the record is
  \<open>https://{bucket}.s3.{region}.amazonaws.com/{key}\<close>. A second run, in any deployment and
  state, for the same identifier and with the same classification, hands the same key to
  the uploader and, with the same bucket and region, gives the same URL.
\<close>

theorem key_and_url_format:
  assumes "videoId req = Some vid" and "vid \<noteq> []"
    and "getBearerToken w (headers req) = Inr token"
    and "validateJWT w token (jwtSecret cfg) = Inr user"
    and "db s vid = Some video" and "userID video = user"
    and "formData req = Inr form" and "map_of form ''video'' = Some (FormFile file)"
    and "file_size file \<le> 2 ^ 30" and "file_type file = ''video/mp4''"
    and "fst (getVideoAspectRatio w (path_join w [''/tmp'', vid @ ''.mp4''])
           (s\<lparr>fs := (fs s)(path_join w [''/tmp'', vid @ ''.mp4''] \<mapsto> file_data file)\<rparr>)) =
         Inr classification"
    and "videoId req' = Some vid"
    and "getBearerToken w' (headers req') = Inr token'"
    and "validateJWT w' token' (jwtSecret cfg') = Inr user'"
    and "db s' vid = Some video'" and "userID video' = user'"
    and "formData req' = Inr form'" and "map_of form' ''video'' = Some (FormFile file')"
    and "file_size file' \<le> 2 ^ 30" and "file_type file' = ''video/mp4''"
    and "fst (getVideoAspectRatio w' (path_join w' [''/tmp'', vid @ ''.mp4''])
           (s'\<lparr>fs := (fs s')(path_join w' [''/tmp'', vid @ ''.mp4''] \<mapsto> file_data file')\<rparr>)) =
         Inr classification"
    and "s3Bucket cfg' = s3Bucket cfg" and "s3Region cfg' = s3Region cfg"
  shows "let R = handlerUploadVideo w cfg req s;
             R' = handlerUploadVideo w' cfg' req' s';
             key = classification @ ''/'' @ vid @ ''.mp4'';
             url = ''https://'' @ s3Bucket cfg @ ''.s3.'' @ s3Region cfg @ ''.amazonaws.com/'' @ key
         in
    take 7 (events_of s (snd R)) =
       [GetBearerToken, ValidateJWT, GetVideo vid, ReadFormData,
        Write (path_join w [''/tmp'', vid @ ''.mp4'']),
        Spawn (ffprobe_argv (path_join w [''/tmp'', vid @ ''.mp4''])),
        UploadVideoToS3 key (path_join w [''/tmp'', vid @ ''.mp4'']) ''video/mp4''] \<and>
    (\<forall>k p c. UploadVideoToS3 k p c \<in> set (events_of s (snd R)) \<longrightarrow> k = key) \<and>
    (\<forall>r. fst R = Inr r \<longrightarrow>
        r = Response 200 (Some (video\<lparr>videoURL := Some url\<rparr>)) \<and>
        db (snd R) (video_id video) = Some (video\<lparr>videoURL := Some url\<rparr>)) \<and>
    take 7 (events_of s' (snd R')) =
       [GetBearerToken, ValidateJWT, GetVideo vid, ReadFormData,
        Write (path_join w' [''/tmp'', vid @ ''.mp4'']),
        Spawn (ffprobe_argv (path_join w' [''/tmp'', vid @ ''.mp4''])),
        UploadVideoToS3 key (path_join w' [''/tmp'', vid @ ''.mp4'']) ''video/mp4''] \<and>
    (\<forall>k p c. UploadVideoToS3 k p c \<in> set (events_of s' (snd R')) \<longrightarrow> k = key) \<and>
    (\<forall>r. fst R' = Inr r \<longrightarrow>
        r = Response 200 (Some (video'\<lparr>videoURL := Some url\<rparr>)) \<and>
        db (snd R') (video_id video') = Some (video'\<lparr>videoURL := Some url\<rparr>))"
  using run_with_classification [OF assms(1-11)]
    run_with_classification [OF assms(12) assms(2) assms(13-21)] assms(22,23)
  by (simp add: Let_def)

theorem key_and_url_format_witness:
  "fst (getVideoAspectRatio world_ok (path_join world_ok [''/tmp'', ''abc123'' @ ''.mp4''])
      (sample_state\<lparr>fs := (fs sample_state)
          (path_join world_ok [''/tmp'', ''abc123'' @ ''.mp4''] \<mapsto> Blob 7)\<rparr>)) = Inr ''landscape'' \<and>
   fst (getVideoAspectRatio world_upload_fails
      (path_join world_upload_fails [''/tmp'', ''abc123'' @ ''.mp4''])
      (sample_state\<lparr>fs := (fs sample_state)
          (path_join world_upload_fails [''/tmp'', ''abc123'' @ ''.mp4''] \<mapsto> Blob 7)\<rparr>)) =
     Inr ''landscape'' \<and>
   take 7 (events_of sample_state
      (snd (handlerUploadVideo world_ok sample_cfg upload_request sample_state))) =
     [GetBearerToken, ValidateJWT, GetVideo ''abc123'', ReadFormData, Write ''/tmp/abc123.mp4'',
      Spawn (ffprobe_argv ''/tmp/abc123.mp4''),
      UploadVideoToS3 ''landscape/abc123.mp4'' ''/tmp/abc123.mp4'' ''video/mp4''] \<and>
   fst (handlerUploadVideo world_ok sample_cfg upload_request sample_state) =
     Inr (Response 200 (Some (sample_video\<lparr>videoURL :=
       Some ''https://tubely.s3.us-east-2.amazonaws.com/landscape/abc123.mp4''\<rparr>))) \<and>
   fst (handlerUploadVideo world_upload_fails sample_cfg upload_request sample_state) =
     Inl (StorageFailure ''put failed'') \<and>
   take 7 (events_of sample_state
      (snd (handlerUploadVideo world_upload_fails sample_cfg upload_request sample_state))) =
     [GetBearerToken, ValidateJWT, GetVideo ''abc123'', ReadFormData, Write ''/tmp/abc123.mp4'',
      Spawn (ffprobe_argv ''/tmp/abc123.mp4''),
      UploadVideoToS3 ''landscape/abc123.mp4'' ''/tmp/abc123.mp4'' ''video/mp4'']"
proof -
  let ?file = "\<lparr>file_size = 2 ^ 30, file_type = ''video/mp4'', file_data = Blob 7\<rparr>"
  have req: "videoId upload_request = Some ''abc123''" "''abc123'' \<noteq> []"
    "formData upload_request = Inr [(''video'', FormFile ?file)]"
    "map_of [(''video'', FormFile ?file)] ''video'' = Some (FormFile ?file)"
    "file_size ?file \<le> 2 ^ 30" "file_type ?file = ''video/mp4''"
    "db sample_state ''abc123'' = Some sample_video" "userID sample_video = ''alice''"
    by (simp_all add: sample_defs)
  have ok: "getBearerToken world_ok (headers upload_request) = Inr ''token-of-alice''"
    "validateJWT world_ok ''token-of-alice'' (jwtSecret sample_cfg) = Inr ''alice''"
    "fst (getVideoAspectRatio world_ok (path_join world_ok [''/tmp'', ''abc123'' @ ''.mp4''])
      (sample_state\<lparr>fs := (fs sample_state)
          (path_join world_ok [''/tmp'', ''abc123'' @ ''.mp4''] \<mapsto> file_data ?file)\<rparr>)) =
       Inr ''landscape''"
    by (simp_all add: sample_defs probe_defs ratio_16_9)
  have fails: "getBearerToken world_upload_fails (headers upload_request) = Inr ''token-of-alice''"
    "validateJWT world_upload_fails ''token-of-alice'' (jwtSecret sample_cfg) = Inr ''alice''"
    "fst (getVideoAspectRatio world_upload_fails
      (path_join world_upload_fails [''/tmp'', ''abc123'' @ ''.mp4''])
      (sample_state\<lparr>fs := (fs sample_state)
          (path_join world_upload_fails [''/tmp'', ''abc123'' @ ''.mp4''] \<mapsto> file_data ?file)\<rparr>)) =
       Inr ''landscape''"
    by (simp_all add: sample_defs probe_defs ratio_16_9)
  have join: "path_join world_ok [''/tmp'', ''abc123.mp4''] = ''/tmp/abc123.mp4''"
    "path_join world_upload_fails [''/tmp'', ''abc123.mp4''] = ''/tmp/abc123.mp4''"
    by (simp_all add: sample_defs)
  note inst = key_and_url_format
    [OF req(1,2) ok(1,2) req(7,8) req(3-6) ok(3) req(1) fails(1,2) req(7,8) req(3-6) fails(3)
        refl refl]
  show ?thesis
    using inst ok(3) fails(3) run_ok(1) run_upload_fails(1)
    by (simp add: Let_def join)
qed

text \<open>
  C5. Whenever the upload handler fails, the table of videos is as it was before the request
  and no call to \<open>updateVideo\<close> has been made; this is so in particular when ffprobe fails
  and when the uploader fails. And when \<open>updateVideo\<close> has been called, the call comes right
  after the call to the uploader, which had returned, and the handler succeeds. (The handler
  never starts the remuxer, so that no failure of it can occur.)
\<close>

theorem record_untouched_on_failure:
  "(\<forall>e. fst (handlerUploadVideo w cfg req s) = Inl e \<longrightarrow>
      db (snd (handlerUploadVideo w cfg req s)) = db s \<and>
      (\<forall>i. UpdateVideo i \<notin> set (events_of s (snd (handlerUploadVideo w cfg req s))))) \<and>
   ((\<forall>argv files. exited (fst (spawn w argv files)) \<noteq> 0) \<longrightarrow>
      db (snd (handlerUploadVideo w cfg req s)) = db s \<and>
      (\<forall>i. UpdateVideo i \<notin> set (events_of s (snd (handlerUploadVideo w cfg req s))))) \<and>
   ((\<forall>key p ctype files. uploadVideoToS3 w cfg key p ctype files \<noteq> None) \<longrightarrow>
      db (snd (handlerUploadVideo w cfg req s)) = db s \<and>
      (\<forall>i. UpdateVideo i \<notin> set (events_of s (snd (handlerUploadVideo w cfg req s))))) \<and>
   (\<forall>i. UpdateVideo i \<in> set (events_of s (snd (handlerUploadVideo w cfg req s))) \<longrightarrow>
      (\<exists>pre key p. events_of s (snd (handlerUploadVideo w cfg req s)) =
          pre @ [UploadVideoToS3 key p ''video/mp4'', UpdateVideo i, Rm p] \<and>
          UpdateVideo i \<notin> set pre) \<and>
      (\<exists>r. fst (handlerUploadVideo w cfg req s) = Inr r))"
proof -
  have error: "db (snd (handlerUploadVideo w cfg req s)) = db s \<and>
      (\<forall>i. UpdateVideo i \<notin> set (events_of s (snd (handlerUploadVideo w cfg req s))))"
    if "fst (handlerUploadVideo w cfg req s) = Inl e" for e
    using that by (auto simp: handler_unfold split: handler_splits)
  have probe: "db (snd (handlerUploadVideo w cfg req s)) = db s \<and>
      (\<forall>i. UpdateVideo i \<notin> set (events_of s (snd (handlerUploadVideo w cfg req s))))"
    if fails: "\<forall>argv files. exited (fst (spawn w argv files)) \<noteq> 0"
  proof -
    have "fst (getVideoAspectRatio w p t) \<noteq> Inr a" for p t a
      using fails by (simp add: getVideoAspectRatio_def Bun_spawn_def)
    then show ?thesis
      by (auto simp: handler_unfold split: handler_splits)
  qed
  have upload: "db (snd (handlerUploadVideo w cfg req s)) = db s \<and>
      (\<forall>i. UpdateVideo i \<notin> set (events_of s (snd (handlerUploadVideo w cfg req s))))"
    if fails: "\<forall>key p ctype files. uploadVideoToS3 w cfg key p ctype files \<noteq> None"
  proof -
    have never: "(uploadVideoToS3 w cfg key p ctype files = None) = False" for key p ctype files
      using fails by simp
    show ?thesis
      by (auto simp: handler_unfold never split: handler_splits)
  qed
  have update: "(\<exists>pre key p. events_of s (snd (handlerUploadVideo w cfg req s)) =
          pre @ [UploadVideoToS3 key p ''video/mp4'', UpdateVideo i, Rm p] \<and>
          UpdateVideo i \<notin> set pre) \<and> (\<exists>r. fst (handlerUploadVideo w cfg req s) = Inr r)"
    if "UpdateVideo i \<in> set (events_of s (snd (handlerUploadVideo w cfg req s)))" for i
    using that by (auto simp: handler_unfold split: handler_splits)
  from error probe upload update show ?thesis
    by blast
qed

theorem record_untouched_on_failure_witness:
  "fst (handlerUploadVideo world_upload_fails sample_cfg upload_request sample_state) =
     Inl (StorageFailure ''put failed'') \<and>
   (\<forall>key p ctype files. uploadVideoToS3 world_upload_fails sample_cfg key p ctype files \<noteq> None) \<and>
   db (snd (handlerUploadVideo world_upload_fails sample_cfg upload_request sample_state)) =
     db sample_state \<and>
   (\<forall>i. UpdateVideo i \<notin> set (events_of sample_state
       (snd (handlerUploadVideo world_upload_fails sample_cfg upload_request sample_state)))) \<and>
   (\<forall>argv files. exited (fst (spawn world_probe_fails argv files)) \<noteq> 0) \<and>
   db (snd (handlerUploadVideo world_probe_fails sample_cfg upload_request sample_state)) =
     db sample_state \<and>
   UpdateVideo ''abc123'' \<in> set (events_of sample_state
       (snd (handlerUploadVideo world_ok sample_cfg upload_request sample_state))) \<and>
   (\<exists>r. fst (handlerUploadVideo world_ok sample_cfg upload_request sample_state) = Inr r)"
proof -
  have upload: "\<forall>key p ctype files.
      uploadVideoToS3 world_upload_fails sample_cfg key p ctype files \<noteq> None"
    by (simp add: sample_defs)
  have probe: "\<forall>argv files. exited (fst (spawn world_probe_fails argv files)) \<noteq> 0"
    by (simp add: sample_defs)
  have updated: "UpdateVideo ''abc123'' \<in> set (events_of sample_state
       (snd (handlerUploadVideo world_ok sample_cfg upload_request sample_state)))"
    by (simp add: run_ok(2))
  show ?thesis
    using upload probe updated run_upload_fails(1)
      record_untouched_on_failure [of world_upload_fails sample_cfg upload_request sample_state]
      record_untouched_on_failure [of world_probe_fails sample_cfg upload_request sample_state]
      record_untouched_on_failure [of world_ok sample_cfg upload_request sample_state]
    by blast
qed


text \<open>
  C1 (the code departs from the claim). On a successful upload the handler never starts
  the remuxer: the calls it makes are the checks, the write of the staged file, ffprobe, the
  upload, the update of the record and the removal of the staged file, and the path handed
  to the uploader is the staged file \<open>/tmp/abc123.mp4\<close> itself, not the file
  \<open>/tmp/abc123.mp4.processed\<close> that \<open>processVideoForFastStart\<close> returns for it.
\<close>

theorem staged_file_is_uploaded_unprocessed:
  "fst (handlerUploadVideo world_ok sample_cfg upload_request sample_state) =
     Inr (Response 200 (Some (sample_video\<lparr>videoURL :=
       Some ''https://tubely.s3.us-east-2.amazonaws.com/landscape/abc123.mp4''\<rparr>))) \<and>
   events_of sample_state (snd (handlerUploadVideo world_ok sample_cfg upload_request sample_state)) =
     [GetBearerToken, ValidateJWT, GetVideo ''abc123'', ReadFormData, Write ''/tmp/abc123.mp4'',
      Spawn [''ffprobe'', ''-v'', ''error'', ''-select_streams'', ''v:0'', ''-show_entries'',
             ''stream=width,height'', ''-of'', ''json'', ''/tmp/abc123.mp4''],
      UploadVideoToS3 ''landscape/abc123.mp4'' ''/tmp/abc123.mp4'' ''video/mp4'',
      UpdateVideo ''abc123'', Rm ''/tmp/abc123.mp4''] \<and>
   fst (processVideoForFastStart world_ok ''/tmp/abc123.mp4'' sample_state) =
     Inr ''/tmp/abc123.mp4.processed''"
  using run_ok(1,2)
  by (simp add: processVideoForFastStart_def Bun_spawn_def ffprobe_argv_def sample_defs)

text \<open>
  C2 (the code departs from the claim). The staged file is removed by the last statement of
  the handler only. When ffprobe exits with status 1, and when the uploader throws, the
  handler throws the error and the staged file \<open>/tmp/abc123.mp4\<close> is still there: no call
  to \<open>rm\<close> has been made.
\<close>

theorem staged_file_left_behind_on_failure:
  "fst (handlerUploadVideo world_probe_fails sample_cfg upload_request sample_state) =
     Inl (FfprobeFailed 1 ''Invalid data found'') \<and>
   fs (snd (handlerUploadVideo world_probe_fails sample_cfg upload_request sample_state))
     ''/tmp/abc123.mp4'' = Some (Blob 7) \<and>
   Rm ''/tmp/abc123.mp4'' \<notin> set (events_of sample_state
     (snd (handlerUploadVideo world_probe_fails sample_cfg upload_request sample_state))) \<and>
   fst (handlerUploadVideo world_upload_fails sample_cfg upload_request sample_state) =
     Inl (StorageFailure ''put failed'') \<and>
   fs (snd (handlerUploadVideo world_upload_fails sample_cfg upload_request sample_state))
     ''/tmp/abc123.mp4'' = Some (Blob 7) \<and>
   Rm ''/tmp/abc123.mp4'' \<notin> set (events_of sample_state
     (snd (handlerUploadVideo world_upload_fails sample_cfg upload_request sample_state)))"
  by (simp add: run_probe_fails run_upload_fails)

section \<open>The prober\<close>

text \<open>
  The classification as the code computes it: each of \<open>/\<close>, \<open>-\<close>, \<open>Math.abs\<close> and \<open><\<close>
  is the operation on binary64 numbers, and \<open>16 / 9\<close>, \<open>9 / 16\<close> and \<open>0.05\<close> are the
  binary64 numbers these expressions denote.
\<close>

lemma classification_in_binary64:
  "(\<forall>json streams.
      exited (fst (spawn w (ffprobe_argv p) (fs s))) = 0 \<and>
      JSON_parse w (stdout (fst (spawn w (ffprobe_argv p) (fs s)))) = Some json \<and>
      member json ''streams'' = Inr streams \<and>
      opt_member (opt_index0 streams) ''width'' = JNum (Fin (of_nat width)) \<and>
      opt_member (opt_index0 streams) ''height'' = JNum (Fin (of_nat height)) \<and>
      0 < width \<and> 0 < height \<longrightarrow>
      fst (getVideoAspectRatio w p s) =
        Inr (if js_lt (Math_abs (js_sub (js_div (Fin (of_nat width)) (Fin (of_nat height)))
                                        (js_div (Fin 16) (Fin 9)))) TOLERANCE
             then ''landscape''
             else if js_lt (Math_abs (js_sub (js_div (Fin (of_nat width)) (Fin (of_nat height)))
                                             (js_div (Fin 9) (Fin 16)))) TOLERANCE
             then ''portrait'' else ''other'')) \<and>
   classify w (JNum (Fin 1920)) (JNum (Fin 1080)) = Inr ''landscape'' \<and>
   classify w (JNum (Fin 1080)) (JNum (Fin 1920)) = Inr ''portrait'' \<and>
   classify w (JNum (Fin 1000)) (JNum (Fin 1000)) = Inr ''other''"
proof -
  have "fst (getVideoAspectRatio w p s) =
          Inr (classify_ratio (js_div (Fin (of_nat width)) (Fin (of_nat height))))"
    if "exited (fst (spawn w (ffprobe_argv p) (fs s))) = 0"
      and "JSON_parse w (stdout (fst (spawn w (ffprobe_argv p) (fs s)))) = Some json"
      and "member json ''streams'' = Inr streams"
      and "opt_member (opt_index0 streams) ''width'' = JNum (Fin (of_nat width))"
      and "opt_member (opt_index0 streams) ''height'' = JNum (Fin (of_nat height))"
      and "0 < width" "0 < height" for json streams
    using that by (intro probe_numbers [of w p s json streams]) simp_all
  then show ?thesis
    unfolding classify_ratio_def using classify_examples [of w] by blast
qed

subsection \<open>The rounding error, and the classification in exact terms\<close>

lemma pow2_powi: "pow2 k = 2 powi k"
  by (simp add: pow2_def power_int_def inverse_eq_divide power_one_over)

lemma pow2_pos: "0 < pow2 k"
  by (simp add: pow2_powi)

lemma pow2_mono: "k \<le> l \<Longrightarrow> pow2 k \<le> pow2 l"
  by (simp add: pow2_powi power_int_increasing)

lemma pow2_less_imp: "pow2 k < pow2 l \<Longrightarrow> k < l"
  using pow2_mono [of l k] by (cases "k < l") auto

lemma pow2_Suc: "pow2 (k + 1) = 2 * pow2 k"
  by (simp add: pow2_powi power_int_add)

lemma pow2_pred: "pow2 (k - 1) = pow2 k / 2"
  using pow2_Suc [of "k - 1"] by simp

lemma ilog2_nonneg: "0 \<le> ilog2 n"
  by (induction n rule: ilog2.induct) (subst ilog2.simps, simp)

lemma ilog2_bounds: "1 \<le> n \<Longrightarrow> 2 ^ nat (ilog2 n) \<le> n \<and> n < 2 * 2 ^ nat (ilog2 n)"
proof (induction n rule: ilog2.induct)
  case (1 n)
  show ?case
  proof (cases "n < 2")
    case True
    with "1.prems" have "n = 1" by simp
    then show ?thesis by (subst ilog2.simps, simp)+
  next
    case False
    then have half: "1 \<le> n div 2" by simp
    from "1.IH" [OF False half]
    have IH: "2 ^ nat (ilog2 (n div 2)) \<le> n div 2" "n div 2 < 2 * 2 ^ nat (ilog2 (n div 2))"
      by simp_all
    have eq: "ilog2 n = 1 + ilog2 (n div 2)"
      using False by (subst ilog2.simps) simp
    have pw: "(2::int) ^ nat (ilog2 n) = 2 * 2 ^ nat (ilog2 (n div 2))"
      using ilog2_nonneg [of "n div 2"] by (simp add: eq nat_add_distrib)
    from IH show ?thesis
      unfolding pw by linarith
  qed
qed


lemma binexp_le:
  assumes "0 < a"
  shows "pow2 (binexp a) \<le> a"
proof -
  obtain p q where pq: "quotient_of a = (p, q)"
    by (cases "quotient_of a")
  have q: "0 < q" and a: "a = of_int p / of_int q"
    using pq quotient_of_denom_pos quotient_of_div by blast+
  have p: "0 < p"
    using assms q a by (simp add: zero_less_divide_iff)
  define k where "k = ilog2 p - ilog2 q"
  have be: "binexp a = (if pow2 k \<le> a then k else k - 1)"
    by (simp add: binexp_def adjust_exp_def pq k_def)
  have lo: "pow2 (k - 1) \<le> a"
  proof -
    from ilog2_bounds [of p] p have pl: "(2::int) ^ nat (ilog2 p) \<le> p" by simp
    from ilog2_bounds [of q] q have qu: "q < 2 * 2 ^ nat (ilog2 q)" by simp
    have "pow2 (k - 1) = 2 powi (ilog2 p) / (2 * 2 powi (ilog2 q))"
      by (simp add: pow2_powi k_def power_int_diff)
    also have "\<dots> = of_int (2 ^ nat (ilog2 p)) / of_int (2 * 2 ^ nat (ilog2 q))"
      using ilog2_nonneg [of p] ilog2_nonneg [of q] by (simp add: power_int_def)
    also have "\<dots> \<le> of_int p / of_int q"
    proof (rule frac_le)
      show "(0::rat) \<le> of_int p" using p by simp
      show "(of_int (2 ^ nat (ilog2 p)) :: rat) \<le> of_int p" using pl by (simp only: of_int_le_iff)
      show "(0::rat) < of_int q" using q by simp
      have "q \<le> 2 * 2 ^ nat (ilog2 q)"
        using qu by simp
      then show "(of_int q :: rat) \<le> of_int (2 * 2 ^ nat (ilog2 q))"
        by (simp only: of_int_le_iff)
    qed
    finally show ?thesis by (simp add: a)
  qed
  show ?thesis
    using lo by (simp add: be)
qed

lemma binexp_less:
  assumes "0 < a" and "a < pow2 k"
  shows "binexp a < k"
  using binexp_le [OF assms(1)] assms(2) pow2_less_imp [of "binexp a" k] by simp

lemma binexp_zero: "binexp 0 = - 1"
  by code_simp

lemma round_half_even_error: "\<bar>of_int (round_half_even q) - q\<bar> \<le> 1 / 2"
proof -
  have "of_int \<lfloor>q\<rfloor> \<le> q" "q < of_int \<lfloor>q\<rfloor> + 1"
    by linarith+
  then show ?thesis
    by (auto simp: round_half_even_def tie_even_def abs_le_iff)
qed

lemma round_half_even_nonneg: "0 \<le> q \<Longrightarrow> 0 \<le> round_half_even q"
  by (auto simp: round_half_even_def tie_even_def)

lemma round_ulp_error:
  assumes "0 < u"
  shows "\<bar>round_ulp u a - a\<bar> \<le> u / 2"
proof -
  have "(of_int (round_half_even (a / u)) - a / u) * u = round_ulp u a - a"
    using assms by (simp add: round_ulp_def left_diff_distrib)
  then have "\<bar>round_ulp u a - a\<bar> = \<bar>of_int (round_half_even (a / u)) - a / u\<bar> * \<bar>u\<bar>"
    by (simp only: abs_mult [symmetric])
  also have "\<dots> = \<bar>of_int (round_half_even (a / u)) - a / u\<bar> * u"
    using assms by simp
  also have "\<dots> \<le> 1 / 2 * u"
    using round_half_even_error [of "a / u"] assms by (intro mult_right_mono) simp_all
  finally show ?thesis by simp
qed

lemma round_ulp_nonneg: "0 < u \<Longrightarrow> 0 \<le> a \<Longrightarrow> 0 \<le> round_ulp u a"
  using round_half_even_nonneg [of "a / u"] by (simp add: round_ulp_def)

text \<open>A number below \<open>2^k\<close> in absolute value is rounded to a finite number, at most half
  a unit in the last place away.\<close>

lemma to_double_error:
  assumes "\<bar>x\<bar> < pow2 k" and "- 1000 \<le> k" and "k \<le> 1000"
  obtains z where "to_double x = Fin z" and "\<bar>z - x\<bar> \<le> pow2 (max (k - 1) (- 1022) - 53)"
proof (cases "x = 0")
  case True
  have "to_double x = Fin 0" "\<bar>0 - x\<bar> \<le> pow2 (max (k - 1) (- 1022) - 53)"
    using True pow2_pos [of "max (k - 1) (- 1022) - 53"] by (simp_all add: to_double_def)
  then show ?thesis by (rule that)
next
  case False
  define a where "a = \<bar>x\<bar>"
  define e where "e = max (binexp a) (- 1022)"
  define u where "u = pow2 (e - 52)"
  define y where "y = round_ulp u a"
  have a: "0 < a" "a < pow2 k"
    using False assms(1) by (simp_all add: a_def)
  have e: "e \<le> max (k - 1) (- 1022)"
    using binexp_less [OF a] by (simp add: e_def)
  have u: "0 < u"
    by (simp add: u_def pow2_pos)
  have half: "u / 2 = pow2 (e - 53)"
    using pow2_pred [of "e - 52"] by (simp add: u_def)
  have err: "\<bar>y - a\<bar> \<le> pow2 (max (k - 1) (- 1022) - 53)"
    using round_ulp_error [OF u, of a] pow2_mono [of "e - 53" "max (k - 1) (- 1022) - 53"] e
    by (simp add: y_def half)
  have y0: "0 \<le> y"
    using round_ulp_nonneg [OF u, of a] a by (simp add: y_def)
  have small: "binexp y < 1024"
  proof (cases "y = 0")
    case True
    then show ?thesis by (simp add: binexp_zero)
  next
    case False
    have "pow2 (max (k - 1) (- 1022) - 53) \<le> pow2 k"
      using assms(2) by (intro pow2_mono) simp
    with err a have "y < pow2 k + pow2 k"
      by (simp add: abs_le_iff)
    then have "y < pow2 (k + 1)"
      by (simp add: pow2_Suc)
    with False y0 have "binexp y < k + 1"
      by (intro binexp_less) simp_all
    with assms(3) show ?thesis by simp
  qed
  have td: "to_double x = Fin (if x < 0 then - y else y)"
    using False small
    by (simp add: to_double_def overflow_def y_def u_def e_def a_def)
  have "\<bar>(if x < 0 then - y else y) - x\<bar> = \<bar>y - a\<bar>"
    by (simp add: a_def abs_if)
  with err td show ?thesis
    by (intro that [of "if x < 0 then - y else y"]) simp_all
qed

lemma to_double_16_9: "to_double (16 / 9) = Fin (2001599834386887 / 1125899906842624)"
  by code_simp

lemma to_double_9_16: "to_double (9 / 16) = Fin (9 / 16)"
  by code_simp

lemma sub_error:
  assumes "\<bar>x\<bar> < pow2 k" and "\<bar>c\<bar> \<le> pow2 k" and "- 900 \<le> k" and "k \<le> 900"
  obtains g where "js_sub (to_double x) (Fin c) = Fin g" and "\<bar>g - (x - c)\<bar> \<le> 5 * pow2 (k - 54)"
proof -
  obtain f where f: "to_double x = Fin f" "\<bar>f - x\<bar> \<le> pow2 (max (k - 1) (- 1022) - 53)"
    using assms by (elim to_double_error [of x k]) simp_all
  have e1: "\<bar>f - x\<bar> \<le> pow2 (k - 54)"
    using f(2) assms(3) by (simp add: max_def)
  have p54: "pow2 (k - 54) \<le> pow2 k"
    by (intro pow2_mono) simp
  have "\<bar>f - c\<bar> < 4 * pow2 k"
    using e1 p54 assms(1,2) by (simp add: abs_if split: if_splits)
  then have "\<bar>f - c\<bar> < pow2 (k + 2)"
    using pow2_Suc [of k] pow2_Suc [of "k + 1"] by (simp add: add.commute)
  then obtain g where g: "to_double (f - c) = Fin g"
      "\<bar>g - (f - c)\<bar> \<le> pow2 (max (k + 2 - 1) (- 1022) - 53)"
    using assms by (elim to_double_error [of "f - c" "k + 2"]) simp_all
  have "pow2 (k - 52) = 4 * pow2 (k - 54)"
    using pow2_Suc [of "k - 54"] pow2_Suc [of "k - 53"] by (simp add: algebra_simps)
  then have e2: "\<bar>g - (f - c)\<bar> \<le> 4 * pow2 (k - 54)"
    using g(2) assms(3) by (simp add: max_def)
  have "js_sub (to_double x) (Fin c) = Fin g"
    by (simp add: f(1) g(1))
  moreover have "\<bar>g - (x - c)\<bar> \<le> 5 * pow2 (k - 54)"
    using e1 e2 by (simp add: abs_if split: if_splits)
  ultimately show ?thesis
    by (rule that)
qed

lemma pow2_m53: "pow2 (- 53) = 1 / 9007199254740992"
  by (simp add: pow2_def)

lemma pow2_m12: "pow2 (- 12) = 1 / 4096"
  by (simp add: pow2_def)

lemma pow2_1: "pow2 1 = 2"
  by (simp add: pow2_def)

lemma pow2_42: "pow2 42 = 4398046511104"
  by (simp add: pow2_def)

text \<open>The two tests, for a ratio below 2 and one from 2 on.\<close>

lemma landscape_test_near:
  assumes "0 < x" and "x < 2"
  obtains g where "js_sub (to_double x) (to_double (16 / 9)) = Fin g"
    and "\<bar>g - (x - 16 / 9)\<bar> \<le> 1 / 2 ^ 50"
proof -
  obtain g where g: "js_sub (to_double x) (Fin (2001599834386887 / 1125899906842624)) = Fin g"
    "\<bar>g - (x - 2001599834386887 / 1125899906842624)\<bar> \<le> 5 * pow2 (1 - 54)"
  proof (rule sub_error [of x 1 "2001599834386887 / 1125899906842624"])
  qed (use assms in \<open>simp_all add: pow2_1\<close>)
  have "\<bar>g - (x - 16 / 9)\<bar> \<le> 1 / 2 ^ 50"
    using g(2) by (simp add: pow2_m53 abs_if split: if_splits)
  with g(1) show ?thesis
    by (intro that [of g]) (simp_all add: to_double_16_9)
qed

lemma portrait_test_near:
  assumes "0 < x" and "x < 2"
  obtains g where "js_sub (to_double x) (to_double (9 / 16)) = Fin g"
    and "\<bar>g - (x - 9 / 16)\<bar> \<le> 1 / 2 ^ 50"
proof -
  obtain g where g: "js_sub (to_double x) (Fin (9 / 16)) = Fin g"
    "\<bar>g - (x - 9 / 16)\<bar> \<le> 5 * pow2 (1 - 54)"
  proof (rule sub_error [of x 1 "9 / 16"])
  qed (use assms in \<open>simp_all add: pow2_1\<close>)
  have "\<bar>g - (x - 9 / 16)\<bar> \<le> 1 / 2 ^ 50"
    using g(2) by (simp add: pow2_m53 abs_if split: if_splits)
  with g(1) show ?thesis
    by (intro that [of g]) (simp_all add: to_double_9_16)
qed

lemma tests_far:
  assumes "2 \<le> x" and "x < 2 ^ 42"
  shows "classify_ratio (to_double x) = ''other''"
proof -
  obtain g where g: "js_sub (to_double x) (Fin (2001599834386887 / 1125899906842624)) = Fin g"
    "\<bar>g - (x - 2001599834386887 / 1125899906842624)\<bar> \<le> 5 * pow2 (42 - 54)"
  proof (rule sub_error [of x 42 "2001599834386887 / 1125899906842624"])
  qed (use assms in \<open>simp_all add: pow2_42\<close>)
  obtain g' where g': "js_sub (to_double x) (Fin (9 / 16)) = Fin g'"
    "\<bar>g' - (x - 9 / 16)\<bar> \<le> 5 * pow2 (42 - 54)"
  proof (rule sub_error [of x 42 "9 / 16"])
  qed (use assms in \<open>simp_all add: pow2_42\<close>)
  have "1 / 5 \<le> g" "1 / 5 \<le> g'"
    using g(2) g'(2) assms(1) by (simp_all add: pow2_m12 abs_if split: if_splits)
  then show ?thesis
    using g(1) g'(1)
    by (simp add: classify_ratio_def to_double_16_9 to_double_9_16 tolerance_val)
qed

lemma ratio_upper:
  fixes W H a b :: rat
  assumes "0 < H" and "H \<le> 2 ^ 42" and "0 < a" and "a * W + 1 \<le> b * H"
  shows "W / H \<le> b / a - 1 / (a * 2 ^ 42)"
proof -
  have "W / H \<le> b / a - 1 / (a * H)"
    using assms(1,3,4) by (simp add: field_simps)
  moreover have "1 / (a * 2 ^ 42) \<le> 1 / (a * H)"
    using assms(1,2,3) by (intro divide_left_mono mult_left_mono mult_pos_pos) simp_all
  ultimately show ?thesis
    by linarith
qed

lemma ratio_lower:
  fixes W H a b :: rat
  assumes "0 < H" and "H \<le> 2 ^ 42" and "0 < a" and "b * H + 1 \<le> a * W"
  shows "b / a + 1 / (a * 2 ^ 42) \<le> W / H"
proof -
  have "(b * H + 1) / (a * H) \<le> (a * W) / (a * H)"
    using assms(1,3,4) by (intro divide_right_mono) simp_all
  moreover have "(b * H + 1) / (a * H) = b / a + 1 / (a * H)"
    using assms(1,3) by (simp add: add_divide_distrib)
  moreover have "(a * W) / (a * H) = W / H"
    using assms(3) by simp
  ultimately have "b / a + 1 / (a * H) \<le> W / H"
    by simp
  moreover have "1 / (a * 2 ^ 42) \<le> 1 / (a * H)"
    using assms(1,2,3) by (intro divide_left_mono mult_left_mono mult_pos_pos) simp_all
  ultimately show ?thesis
    by linarith
qed

lemma js_lt_abs: "js_lt (Math_abs (Fin g)) TOLERANCE \<longleftrightarrow> \<bar>g\<bar> < 3602879701896397 / 72057594037927936"
  by (simp add: tolerance_val)

lemma boundary_portrait:
  "classify_ratio (to_double (41 / 80)) = ''other''"
  "classify_ratio (to_double (49 / 80)) = ''other''"
  by code_simp+

lemma classify_ratio_tests:
  assumes "js_sub (to_double x) (to_double (16 / 9)) = Fin g"
    and "js_sub (to_double x) (to_double (9 / 16)) = Fin g'"
  shows "classify_ratio (to_double x) =
    (if \<bar>g\<bar> < 3602879701896397 / 72057594037927936 then ''landscape''
     else if \<bar>g'\<bar> < 3602879701896397 / 72057594037927936 then ''portrait'' else ''other'')"
  using assms by (simp add: classify_ratio_def tolerance_val del: js_sub.simps)

lemma of_nat_less_rat: "m < n \<Longrightarrow> (of_nat m :: rat) + 1 \<le> of_nat n"
proof -
  assume "m < n"
  then have "Suc m \<le> n" by simp
  then have "(of_nat (Suc m) :: rat) \<le> of_nat n" by (simp only: of_nat_le_iff)
  then show ?thesis by simp
qed

lemma of_nat_eq_rat: "m = n \<Longrightarrow> (of_nat m :: rat) = of_nat n"
  by simp

text \<open>
  In exact terms, for dimensions below \<open>2^42\<close>: the classification is landscape when
  \<open>311/180 \<le> width/height < 329/180\<close>, portrait when \<open>41/80 < width/height < 49/80\<close>,
  and other otherwise. These are the ratios less than 0.05 away from 16/9 and from 9/16,
  and the ratio 311/180, exactly 0.05 below 16/9, which the rounded subtraction puts on the
  landscape side.
\<close>

lemma classify_exact:
  fixes w h :: nat
  assumes "0 < w" and "0 < h" and "w < 2 ^ 42" and "h < 2 ^ 42"
  shows "classify_ratio (js_div (Fin (of_nat w)) (Fin (of_nat h))) =
    (if 311 * h \<le> 180 * w \<and> 180 * w < 329 * h then ''landscape''
     else if 41 * h < 80 * w \<and> 80 * w < 49 * h then ''portrait''
     else ''other'')"
proof -
  define W H x where "W = (of_nat w :: rat)" and "H = (of_nat h :: rat)" and "x = W / H"
  have H: "0 < H" "H \<le> 2 ^ 42"
    using assms(2) of_nat_less_rat [OF assms(4)] by (simp_all add: H_def)
  have W: "0 < W" "W < 2 ^ 42"
    using assms(1) of_nat_less_rat [OF assms(3)] by (simp_all add: W_def)
  have div: "js_div (Fin (of_nat w)) (Fin (of_nat h)) = to_double x"
    using H by (simp add: x_def W_def H_def)
  have x: "0 < x"
    using H W by (simp add: x_def)
  have "classify_ratio (to_double x) =
    (if 311 * h \<le> 180 * w \<and> 180 * w < 329 * h then ''landscape''
     else if 41 * h < 80 * w \<and> 80 * w < 49 * h then ''portrait''
     else ''other'')"
  proof (cases "2 * h \<le> w")
    case True
    then have "(of_nat (2 * h) :: rat) \<le> of_nat w"
      by (simp only: of_nat_le_iff)
    then have "2 * H \<le> W"
      by (simp add: W_def H_def)
    then have "2 \<le> x"
      using H by (simp add: x_def field_simps)
    moreover have "x < 2 ^ 42"
    proof -
      have "1 \<le> H" using assms(2) by (simp add: H_def)
      then have "W / H \<le> W / 1" using W by (intro divide_left_mono) simp_all
      with W show ?thesis by (simp add: x_def)
    qed
    ultimately have "classify_ratio (to_double x) = ''other''"
      by (rule tests_far)
    with True show ?thesis
      by simp
  next
    case False
    then have "(of_nat w :: rat) + 1 \<le> of_nat (2 * h)"
      by (intro of_nat_less_rat) simp
    then have "W < 2 * H"
      by (simp add: W_def H_def)
    then have x2: "x < 2"
      using H by (simp add: x_def field_simps)
    obtain g where g: "js_sub (to_double x) (to_double (16 / 9)) = Fin g"
      "\<bar>g - (x - 16 / 9)\<bar> \<le> 1 / 2 ^ 50"
      using landscape_test_near [OF x x2] by blast
    obtain g' where g': "js_sub (to_double x) (to_double (9 / 16)) = Fin g'"
      "\<bar>g' - (x - 9 / 16)\<bar> \<le> 1 / 2 ^ 50"
      using portrait_test_near [OF x x2] by blast
    note tests = classify_ratio_tests [OF g(1) g'(1)]
    note gb = g(2) [unfolded abs_le_iff] g'(2) [unfolded abs_le_iff]
    have lower: "of_int b / of_int a + 1 / (of_int a * 2 ^ 42) \<le> x"
      if "b * h < a * w" "0 < a" for a b :: nat
    proof -
      have "(of_nat (b * h) :: rat) + 1 \<le> of_nat (a * w)"
        using that(1) by (rule of_nat_less_rat)
      then have "of_nat b * H + 1 \<le> of_nat a * W"
        by (simp add: W_def H_def)
      then show ?thesis
        unfolding x_def using that(2) H by (intro ratio_lower) simp_all
    qed
    have upper: "x \<le> of_int b / of_int a - 1 / (of_int a * 2 ^ 42)"
      if "a * w < b * h" "0 < a" for a b :: nat
    proof -
      have "(of_nat (a * w) :: rat) + 1 \<le> of_nat (b * h)"
        using that(1) by (rule of_nat_less_rat)
      then have "of_nat a * W + 1 \<le> of_nat b * H"
        by (simp add: W_def H_def)
      then show ?thesis
        unfolding x_def using that(2) H by (intro ratio_upper) simp_all
    qed
    have exact: "x = of_nat b / of_nat a" if "a * w = b * h" "0 < a" for a b :: nat
    proof -
      have "(of_nat (a * w) :: rat) = of_nat (b * h)"
        using that(1) by simp
      then have "of_nat a * W = of_nat b * H"
        by (simp add: W_def H_def)
      then show ?thesis
        using that(2) H by (simp add: x_def field_simps)
    qed
    consider
      (a) "180 * w = 311 * h" | (b) "180 * w = 329 * h"
      | (c) "311 * h < 180 * w" "180 * w < 329 * h"
      | (d) "80 * w = 41 * h" | (e) "80 * w = 49 * h"
      | (f) "41 * h < 80 * w" "80 * w < 49 * h"
      | (g) "180 * w < 311 * h \<or> 329 * h < 180 * w" "80 * w < 41 * h \<or> 49 * h < 80 * w"
      by linarith
    then show ?thesis
    proof cases
      case a
      from exact [OF a] have xv: "x = 311 / 180" by simp
      show ?thesis
        unfolding xv using a assms(2) by (simp add: boundary_ratios)
    next
      case b
      from exact [OF b] have xv: "x = 329 / 180" by simp
      show ?thesis
        unfolding xv using b assms(2) by (simp add: boundary_ratios)
    next
      case c
      from lower [OF c(1)] upper [OF c(2)]
      have "311 / 180 + 1 / (180 * 2 ^ 42) \<le> x" "x \<le> 329 / 180 - 1 / (180 * 2 ^ 42)"
        by simp_all
      with gb have "\<bar>g\<bar> < 3602879701896397 / 72057594037927936"
        unfolding abs_less_iff by simp
      with c show ?thesis
        by (simp add: tests)
    next
      case d
      from exact [OF d] have xv: "x = 41 / 80" by simp
      show ?thesis
        unfolding xv using d assms(2) by (simp add: boundary_portrait)
    next
      case e
      from exact [OF e] have xv: "x = 49 / 80" by simp
      show ?thesis
        unfolding xv using e assms(2) by (simp add: boundary_portrait)
    next
      case f
      from lower [OF f(1)] upper [OF f(2)]
      have xb: "41 / 80 + 1 / (80 * 2 ^ 42) \<le> x" "x \<le> 49 / 80 - 1 / (80 * 2 ^ 42)"
        by simp_all
      with gb have "\<bar>g'\<bar> < 3602879701896397 / 72057594037927936"
        unfolding abs_less_iff by simp
      moreover from xb gb have "\<not> \<bar>g\<bar> < 3602879701896397 / 72057594037927936"
        unfolding abs_less_iff by simp
      ultimately show ?thesis
        using f by (simp add: tests)
    next
      case g
      have "\<not> \<bar>g\<bar> < 3602879701896397 / 72057594037927936"
      proof (rule disjE [OF g(1)])
        assume "180 * w < 311 * h"
        from upper [OF this] have "x \<le> 311 / 180 - 1 / (180 * 2 ^ 42)" by simp
        with gb show ?thesis unfolding abs_less_iff by simp
      next
        assume "329 * h < 180 * w"
        from lower [OF this] have "329 / 180 + 1 / (180 * 2 ^ 42) \<le> x" by simp
        with gb show ?thesis unfolding abs_less_iff by simp
      qed
      moreover have "\<not> \<bar>g'\<bar> < 3602879701896397 / 72057594037927936"
      proof (rule disjE [OF g(2)])
        assume "80 * w < 41 * h"
        from upper [OF this] have "x \<le> 41 / 80 - 1 / (80 * 2 ^ 42)" by simp
        with gb show ?thesis unfolding abs_less_iff by simp
      next
        assume "49 * h < 80 * w"
        from lower [OF this] have "49 / 80 + 1 / (80 * 2 ^ 42) \<le> x" by simp
        with gb show ?thesis unfolding abs_less_iff by simp
      qed
      ultimately show ?thesis
        using g by (auto simp: tests)
    qed
  qed
  then show ?thesis
    by (simp only: div)
qed

lemma ratio_far_boundary:
  "classify_ratio (to_double (62195967608961 / 34028188965389)) = ''other''"
  by code_simp

lemma within_landscape:
  fixes W H :: rat
  assumes "0 < H"
  shows "\<bar>W / H - 16 / 9\<bar> < 5 / 100 \<longleftrightarrow> 311 * H < 180 * W \<and> 180 * W < 329 * H"
proof -
  have "\<bar>W / H - 16 / 9\<bar> < 5 / 100 \<longleftrightarrow> 311 / 180 < W / H \<and> W / H < 329 / 180"
    unfolding abs_less_iff by linarith
  also have "\<dots> \<longleftrightarrow> 311 / 180 * H < W \<and> W < 329 / 180 * H"
    using pos_less_divide_eq [OF assms, of "311 / 180" W] pos_divide_less_eq [OF assms, of W "329 / 180"]
    by simp
  also have "\<dots> \<longleftrightarrow> 311 * H < 180 * W \<and> 180 * W < 329 * H"
    by auto
  finally show ?thesis .
qed

lemma within_portrait:
  fixes W H :: rat
  assumes "0 < H"
  shows "\<bar>W / H - 9 / 16\<bar> < 5 / 100 \<longleftrightarrow> 41 * H < 80 * W \<and> 80 * W < 49 * H"
proof -
  have "\<bar>W / H - 9 / 16\<bar> < 5 / 100 \<longleftrightarrow> 41 / 80 < W / H \<and> W / H < 49 / 80"
    unfolding abs_less_iff by linarith
  also have "\<dots> \<longleftrightarrow> 41 / 80 * H < W \<and> W < 49 / 80 * H"
    using pos_less_divide_eq [OF assms, of "41 / 80" W] pos_divide_less_eq [OF assms, of W "49 / 80"]
    by simp
  also have "\<dots> \<longleftrightarrow> 41 * H < 80 * W \<and> 80 * W < 49 * H"
    by auto
  finally show ?thesis .
qed

lemma at_boundary:
  fixes W H :: rat
  assumes "0 < H"
  shows "W / H = 311 / 180 \<longleftrightarrow> 180 * W = 311 * H"
  using assms by (auto simp: field_simps)

lemma nat_rat_less: "(of_nat a :: rat) * of_nat m < of_nat b * of_nat n \<longleftrightarrow> a * m < b * n"
  by (simp flip: of_nat_mult)

lemma nat_rat_eq: "(of_nat a :: rat) * of_nat m = of_nat b * of_nat n \<longleftrightarrow> a * m = b * n"
  by (simp only: of_nat_mult [symmetric] of_nat_eq_iff)

lemma exact_conditions:
  fixes w h :: nat
  assumes "0 < h"
  shows "(\<bar>of_nat w / of_nat h - 16 / 9\<bar> < (5 / 100 :: rat) \<or> (of_nat w / of_nat h :: rat) = 311 / 180)
           \<longleftrightarrow> 311 * h \<le> 180 * w \<and> 180 * w < 329 * h"
    and "\<bar>of_nat w / of_nat h - 9 / 16\<bar> < (5 / 100 :: rat) \<longleftrightarrow> 41 * h < 80 * w \<and> 80 * w < 49 * h"
proof -
  have H: "(0::rat) < of_nat h"
    using assms by simp
  have l: "311 * (of_nat h :: rat) < 180 * of_nat w \<longleftrightarrow> 311 * h < 180 * w"
    "180 * (of_nat w :: rat) < 329 * of_nat h \<longleftrightarrow> 180 * w < 329 * h"
    "41 * (of_nat h :: rat) < 80 * of_nat w \<longleftrightarrow> 41 * h < 80 * w"
    "80 * (of_nat w :: rat) < 49 * of_nat h \<longleftrightarrow> 80 * w < 49 * h"
    using nat_rat_less [of 311 h 180 w] nat_rat_less [of 180 w 329 h]
      nat_rat_less [of 41 h 80 w] nat_rat_less [of 80 w 49 h] by simp_all
  have e: "180 * (of_nat w :: rat) = 311 * of_nat h \<longleftrightarrow> 180 * w = 311 * h"
    using nat_rat_eq [of 180 w 311 h] by simp
  show "(\<bar>of_nat w / of_nat h - 16 / 9\<bar> < (5 / 100 :: rat) \<or> (of_nat w / of_nat h :: rat) = 311 / 180)
           \<longleftrightarrow> 311 * h \<le> 180 * w \<and> 180 * w < 329 * h"
    unfolding within_landscape [OF H] at_boundary [OF H] l e using assms by auto
  show "\<bar>of_nat w / of_nat h - 9 / 16\<bar> < (5 / 100 :: rat) \<longleftrightarrow> 41 * h < 80 * w \<and> 80 * w < 49 * h"
    unfolding within_portrait [OF H] l by simp
qed


text \<open>
  C7, as stated, fails. The ratio 311/180 is exactly 0.05 away from 16/9, not less, and more
  than 0.05 away from 9/16, so that the rule as written gives \<open>other\<close> for a video of 311
  by 180 and for one of 1244 by 720; the prober returns \<open>landscape\<close>. And for the
  dimensions 62195967608961 by 34028188965389 the ratio is less than 0.05 away from 16/9,
  and the prober returns \<open>other\<close>.
\<close>

theorem boundary_ratio_is_landscape:
  "\<bar>311 / 180 - 16 / 9\<bar> = (5 / 100 :: rat) \<and>
   \<not> \<bar>311 / 180 - 9 / 16\<bar> < (5 / 100 :: rat) \<and>
   JSON_parse world_311x180 out_311x180 =
     Some (JObj [(''streams'', JArr [JObj [(''width'', JNum (Fin 311)), (''height'', JNum (Fin 180))]])]) \<and>
   fst (getVideoAspectRatio world_311x180 ''/tmp/abc123.mp4'' sample_state) = Inr ''landscape'' \<and>
   \<bar>1244 / 720 - 16 / 9\<bar> = (5 / 100 :: rat) \<and>
   classify world_ok (JNum (Fin 1244)) (JNum (Fin 720)) = Inr ''landscape'' \<and>
   \<bar>62195967608961 / 34028188965389 - 16 / 9\<bar> < (5 / 100 :: rat) \<and>
   classify world_ok (JNum (Fin 62195967608961)) (JNum (Fin 34028188965389)) = Inr ''other''"
  by (simp add: probe_defs sample_defs boundary_ratios
        ratio_far_boundary)

text \<open>
  C7, amended. When ffprobe exits with status 0 and the first video stream of its output
  has the positive integers \<open>width\<close> and \<open>height\<close>, both below \<open>2^42\<close>, the
  classification is \<open>landscape\<close> when \<open>|width / height - 16 / 9| < 0.05\<close> or
  \<open>width / height = 311 / 180\<close>, else \<open>portrait\<close> when
  \<open>|width / height - 9 / 16| < 0.05\<close>, else \<open>other\<close>, in exact arithmetic. 1920 by 1080
  is landscape, 1080 by 1920 is portrait and 1000 by 1000 is other.
\<close>

theorem classification_by_exact_ratio:
  "(\<forall>json streams.
      exited (fst (spawn w (ffprobe_argv p) (fs s))) = 0 \<and>
      JSON_parse w (stdout (fst (spawn w (ffprobe_argv p) (fs s)))) = Some json \<and>
      member json ''streams'' = Inr streams \<and>
      opt_member (opt_index0 streams) ''width'' = JNum (Fin (of_nat width)) \<and>
      opt_member (opt_index0 streams) ''height'' = JNum (Fin (of_nat height)) \<and>
      0 < width \<and> 0 < height \<and> width < 2 ^ 42 \<and> height < 2 ^ 42 \<longrightarrow>
      fst (getVideoAspectRatio w p s) =
        Inr (if \<bar>of_nat width / of_nat height - 16 / 9\<bar> < (5 / 100 :: rat)
                \<or> (of_nat width / of_nat height :: rat) = 311 / 180
             then ''landscape''
             else if \<bar>of_nat width / of_nat height - 9 / 16\<bar> < (5 / 100 :: rat)
             then ''portrait'' else ''other'')) \<and>
   classify w (JNum (Fin 1920)) (JNum (Fin 1080)) = Inr ''landscape'' \<and>
   classify w (JNum (Fin 1080)) (JNum (Fin 1920)) = Inr ''portrait'' \<and>
   classify w (JNum (Fin 1000)) (JNum (Fin 1000)) = Inr ''other''"
proof -
  have "fst (getVideoAspectRatio w p s) =
        Inr (if \<bar>of_nat width / of_nat height - 16 / 9\<bar> < (5 / 100 :: rat)
                \<or> (of_nat width / of_nat height :: rat) = 311 / 180
             then ''landscape''
             else if \<bar>of_nat width / of_nat height - 9 / 16\<bar> < (5 / 100 :: rat)
             then ''portrait'' else ''other'')"
    if run: "exited (fst (spawn w (ffprobe_argv p) (fs s))) = 0"
      "JSON_parse w (stdout (fst (spawn w (ffprobe_argv p) (fs s)))) = Some json"
      "member json ''streams'' = Inr streams"
      "opt_member (opt_index0 streams) ''width'' = JNum (Fin (of_nat width))"
      "opt_member (opt_index0 streams) ''height'' = JNum (Fin (of_nat height))"
      and dims: "0 < width" "0 < height" "width < 2 ^ 42" "height < 2 ^ 42" for json streams
  proof -
    have "fst (getVideoAspectRatio w p s) =
            Inr (classify_ratio (js_div (Fin (of_nat width)) (Fin (of_nat height))))"
      using run dims(1,2) by (intro probe_numbers [of w p s json streams]) simp_all
    then show ?thesis
      unfolding classify_exact [OF dims] exact_conditions [OF dims(2)] .
  qed
  then show ?thesis
    using classify_examples [of w] by blast
qed

theorem classification_by_exact_ratio_witness:
  "exited (fst (spawn world_ok (ffprobe_argv ''/tmp/abc123.mp4'') (fs sample_state))) = 0 \<and>
   JSON_parse world_ok (stdout (fst (spawn world_ok (ffprobe_argv ''/tmp/abc123.mp4'')
       (fs sample_state)))) = Some (dims_json (JNum (Fin 1920)) (JNum (Fin 1080))) \<and>
   member (dims_json (JNum (Fin 1920)) (JNum (Fin 1080))) ''streams'' =
     Inr (JArr [JObj [(''width'', JNum (Fin 1920)), (''height'', JNum (Fin 1080))]]) \<and>
   (0::nat) < 1920 \<and> (0::nat) < 1080 \<and> (1920::nat) < 2 ^ 42 \<and> (1080::nat) < 2 ^ 42 \<and>
   \<bar>1920 / 1080 - 16 / 9\<bar> < (5 / 100 :: rat) \<and>
   fst (getVideoAspectRatio world_ok ''/tmp/abc123.mp4'' sample_state) = Inr ''landscape''"
proof -
  let ?streams = "JArr [JObj [(''width'', JNum (Fin 1920)), (''height'', JNum (Fin 1080))]]"
  have hyps:
    "exited (fst (spawn world_ok (ffprobe_argv ''/tmp/abc123.mp4'') (fs sample_state))) = 0"
    "JSON_parse world_ok (stdout (fst (spawn world_ok (ffprobe_argv ''/tmp/abc123.mp4'')
       (fs sample_state)))) = Some (dims_json (JNum (Fin 1920)) (JNum (Fin 1080)))"
    "member (dims_json (JNum (Fin 1920)) (JNum (Fin 1080))) ''streams'' = Inr ?streams"
    "opt_member (opt_index0 ?streams) ''width'' = JNum (Fin (of_nat 1920))"
    "opt_member (opt_index0 ?streams) ''height'' = JNum (Fin (of_nat 1080))"
    by (simp_all add: sample_defs opt_member_def)
  have prem:
    "exited (fst (spawn world_ok (ffprobe_argv ''/tmp/abc123.mp4'') (fs sample_state))) = 0 \<and>
     JSON_parse world_ok (stdout (fst (spawn world_ok (ffprobe_argv ''/tmp/abc123.mp4'')
       (fs sample_state)))) = Some (dims_json (JNum (Fin 1920)) (JNum (Fin 1080))) \<and>
     member (dims_json (JNum (Fin 1920)) (JNum (Fin 1080))) ''streams'' = Inr ?streams \<and>
     opt_member (opt_index0 ?streams) ''width'' = JNum (Fin (of_nat 1920)) \<and>
     opt_member (opt_index0 ?streams) ''height'' = JNum (Fin (of_nat 1080)) \<and>
     (0::nat) < 1920 \<and> (0::nat) < 1080 \<and> (1920::nat) < 2 ^ 42 \<and> (1080::nat) < 2 ^ 42"
    by (intro conjI hyps) simp_all
  note gen = classification_by_exact_ratio
    [of world_ok "''/tmp/abc123.mp4''" sample_state 1920 1080, THEN conjunct1, rule_format,
     of "dims_json (JNum (Fin 1920)) (JNum (Fin 1080))" ?streams]
  have "fst (getVideoAspectRatio world_ok ''/tmp/abc123.mp4'' sample_state) = Inr ''landscape''"
    using gen [OF prem] by simp
  with hyps(1,2,3) show ?thesis
    by simp
qed

text \<open>
  C3, as stated, fails. A width that is the boolean \<open>true\<close>, or a height that is the
  string \<open>N/A\<close>, is not a number; ffprobe exits with status 0; and the classification
  returned is \<open>other\<close>.
\<close>

theorem non_numeric_dimension_classified_other:
  "JSON_parse world_width_true out_width_true =
     Some (JObj [(''streams'', JArr [JObj [(''width'', JBool True), (''height'', JNum (Fin 1080))]])]) \<and>
   fst (getVideoAspectRatio world_width_true ''/tmp/abc123.mp4'' sample_state) = Inr ''other'' \<and>
   JSON_parse world_height_na out_height_na =
     Some (JObj [(''streams'', JArr [JObj [(''width'', JNum (Fin 1920)), (''height'', JStr ''N/A'')]])]) \<and>
   fst (getVideoAspectRatio world_height_na ''/tmp/abc123.mp4'' sample_state) = Inr ''other''"
  by (simp add: probe_defs sample_defs ratio_tiny ratio_nan)

text \<open>
  C3, amended. When ffprobe exits with status 0 and the width or the height of the first
  video stream of its output is zero, missing (\<open>undefined\<close> or \<open>null\<close>), \<open>false\<close>, \<open>NaN\<close>
  or the empty string, the prober fails and returns no classification: with the error
  \<open>Width or height not found in ffprobe output\<close>, or with a \<open>TypeError\<close> when the output
  as a whole is \<open>null\<close>.
\<close>

theorem zero_or_missing_dimension_fails:
  assumes "exited (fst (spawn w (ffprobe_argv p) (fs s))) = 0"
    and "JSON_parse w (stdout (fst (spawn w (ffprobe_argv p) (fs s)))) = Some json"
    and "opt_member (opt_index0 (opt_member json ''streams'')) ''width''
           \<in> {JUndefined, JNull, JBool False, JNum (Fin 0), JNum NaN, JStr []} \<or>
         opt_member (opt_index0 (opt_member json ''streams'')) ''height''
           \<in> {JUndefined, JNull, JBool False, JNum (Fin 0), JNum NaN, JStr []}"
  shows "fst (getVideoAspectRatio w p s) =
           Inl (if json = JNull \<or> json = JUndefined then TypeError
                else Error ''Width or height not found in ffprobe output'')"
  using assms
  by (cases json)
     (auto simp: getVideoAspectRatio_def Bun_spawn_def parse_dimensions_def opt_member_def
           split: option.splits)

theorem zero_or_missing_dimension_fails_witness:
  "exited (fst (spawn world_width_zero (ffprobe_argv ''/tmp/abc123.mp4'') (fs sample_state))) = 0 \<and>
   opt_member (opt_index0 (opt_member (dims_json (JNum (Fin 0)) (JNum (Fin 1080))) ''streams''))
       ''width'' = JNum (Fin 0) \<and>
   fst (getVideoAspectRatio world_width_zero ''/tmp/abc123.mp4'' sample_state) =
     Inl (Error ''Width or height not found in ffprobe output'') \<and>
   opt_member (opt_index0 (opt_member (JObj [(''streams'', JArr [])]) ''streams''))
       ''height'' = JUndefined \<and>
   fst (getVideoAspectRatio world_no_stream ''/tmp/abc123.mp4'' sample_state) =
     Inl (Error ''Width or height not found in ffprobe output'')"
proof -
  have zero_run:
    "exited (fst (spawn world_width_zero (ffprobe_argv ''/tmp/abc123.mp4'') (fs sample_state))) = 0"
    "JSON_parse world_width_zero (stdout (fst (spawn world_width_zero
        (ffprobe_argv ''/tmp/abc123.mp4'') (fs sample_state)))) =
       Some (dims_json (JNum (Fin 0)) (JNum (Fin 1080)))"
    by (simp_all add: sample_defs)
  have none_run:
    "exited (fst (spawn world_no_stream (ffprobe_argv ''/tmp/abc123.mp4'') (fs sample_state))) = 0"
    "JSON_parse world_no_stream (stdout (fst (spawn world_no_stream
        (ffprobe_argv ''/tmp/abc123.mp4'') (fs sample_state)))) =
       Some (JObj [(''streams'', JArr [])])"
    by (simp_all add: sample_defs)
  have zero: "opt_member (opt_index0 (opt_member (dims_json (JNum (Fin 0)) (JNum (Fin 1080)))
      ''streams'')) ''width'' = JNum (Fin 0)"
    by (simp add: opt_member_def dims_json_def)
  have missing: "opt_member (opt_index0 (opt_member (JObj [(''streams'', JArr [])]) ''streams''))
      ''height'' = JUndefined"
    by (simp add: opt_member_def)
  show ?thesis
    using zero_run(1) zero missing
      zero_or_missing_dimension_fails [OF zero_run]
      zero_or_missing_dimension_fails [OF none_run]
    by (simp add: dims_json_def)
qed

section \<open>The thumbnail handler\<close>








end
